theory Spec2Isabelle
  imports Main
begin

section \<open>EVM chain: AccorDefiEscrow and AccorDefiBridge\<close>

text \<open>
  The two Solidity contracts are embedded over one world: the storage of the escrow
  contract, the storage of the bridge contract and the ether balance of every address.
  A \<open>uint256\<close> is a natural number; Solidity 0.8 checks every addition, subtraction and
  multiplication, so each of them is written with its overflow test and ends in \<open>Panic\<close>.
  A \<open>mapping\<close> is a total function (every key holds the zero value until written).
  A transaction either returns the new world or an error; an error leaves the world as
  it was (the caller of the model keeps the old world). Event emission does not change
  storage and is left out. A plain value transfer \<open>a.call{value: v}("")\<close> succeeds iff the
  contract holds \<open>v\<close> and the receiver accepts ether (\<open>accepts\<close>); receivers are taken not
  to call back into the contracts.
\<close>

type_synonym address = nat

definition UINT256_MAX :: nat where
  "UINT256_MAX = 2 ^ 256 - 1"

datatype evm_error = Revert string | Panic | OutOfFunds

datatype MilestoneStatus =
  Pending | InProgress | Submitted | Approved | Disputed | Released | Refunded

datatype EscrowStatus =
  Active | Completed | Escrow_Disputed | Cancelled | Escrow_Refunded

record Milestone =
  m_id :: nat
  m_description :: string
  m_amount :: nat
  m_status :: MilestoneStatus
  m_deadline :: nat
  m_submissionNote :: string
  m_submittedAt :: nat

record Escrow =
  e_id :: nat
  e_client :: address
  e_freelancer :: address
  e_title :: string
  e_description :: string
  e_totalAmount :: nat
  e_balance :: nat
  e_status :: EscrowStatus
  e_currentMilestone :: nat
  e_createdAt :: nat
  e_updatedAt :: nat
  e_suiRecipient :: nat
  e_crossChain :: bool

record Dispute =
  d_initiatedBy :: address
  d_initiatedAt :: nat
  d_reason :: string
  d_milestoneId :: nat
  d_votesForClient :: nat
  d_votesForFreelancer :: nat
  d_resolved :: bool
  d_resolutionNote :: string

record BridgeTransfer =
  bt_suiRecipient :: nat
  bt_amount :: nat
  bt_initiatedAt :: nat
  bt_confirmationCount :: nat
  bt_executed :: bool
  bt_refunded :: bool

record escrow_storage =
  owner :: address
  treasury :: address
  bridge :: address
  totalEscrows :: nat
  totalVolume :: nat
  feeBps :: nat
  escrows :: "nat \<Rightarrow> Escrow"
  escrowMilestones :: "nat \<Rightarrow> Milestone list"
  disputes :: "nat \<Rightarrow> Dispute"
  hasVoted :: "nat \<Rightarrow> address \<Rightarrow> bool"
  isArbiter :: "address \<Rightarrow> bool"

record bridge_storage =
  b_owner :: address
  escrowContract :: address
  totalBridged :: nat
  bridgeNonce :: nat
  bridgeFee :: nat
  isRelayer :: "address \<Rightarrow> bool"
  transfers :: "nat \<Rightarrow> BridgeTransfer"
  confirmations :: "nat \<Rightarrow> address \<Rightarrow> bool"
  relayers :: "address list"

record evm_world =
  escrowC :: escrow_storage
  bridgeC :: bridge_storage
  eth :: "address \<Rightarrow> nat"

text \<open>
  The environment of a world: the addresses the two contracts are deployed at, which
  addresses accept a plain value transfer, and \<open>keccak256(abi.encodePacked(recipient,
  amount, timestamp, nonce))\<close> as a function of its four arguments.
\<close>

record evm_env =
  escrowAddr :: address
  bridgeAddr :: address
  accepts :: "address \<Rightarrow> bool"
  keccak256 :: "nat \<Rightarrow> nat \<Rightarrow> nat \<Rightarrow> nat \<Rightarrow> nat"

definition PLATFORM_FEE_BPS :: nat where "PLATFORM_FEE_BPS = 100"
definition MIN_ARBITERS :: nat where "MIN_ARBITERS = 3"
definition MIN_CONFIRMATIONS :: nat where "MIN_CONFIRMATIONS = 2"
definition BRIDGE_TIMEOUT :: nat where "BRIDGE_TIMEOUT = 24 * 3600"

subsection \<open>Ether movements\<close>

definition move_eth :: "address \<Rightarrow> address \<Rightarrow> nat \<Rightarrow> (address \<Rightarrow> nat) \<Rightarrow> (address \<Rightarrow> nat)" where
  "move_eth src dst v bal = (let b1 = bal(src := bal src - v) in b1(dst := b1 dst + v))"

text \<open>\<open>msg.value\<close> of a payable call: moved from the caller to the contract before the body runs.\<close>

definition pay_in :: "address \<Rightarrow> address \<Rightarrow> nat \<Rightarrow> evm_world \<Rightarrow> evm_world option" where
  "pay_in sender contract v w =
     (if eth w sender < v then None else Some (w\<lparr>eth := move_eth sender contract v (eth w)\<rparr>))"

text \<open>\<open>dst.call{value: v}("")\<close> made by the contract at \<open>src\<close>; \<open>None\<close> is \<open>success = false\<close>.\<close>

definition send_value :: "evm_env \<Rightarrow> address \<Rightarrow> address \<Rightarrow> nat \<Rightarrow> evm_world \<Rightarrow> evm_world option" where
  "send_value env src dst v w =
     (if eth w src < v then None
      else if accepts env dst then Some (w\<lparr>eth := move_eth src dst v (eth w)\<rparr>)
      else None)"

subsection \<open>AccorDefiBridge\<close>

fun constructor_loop ::
  "address list \<Rightarrow> (address \<Rightarrow> bool) \<Rightarrow> address list \<Rightarrow> evm_error + ((address \<Rightarrow> bool) \<times> address list)" where
  "constructor_loop [] isR rl = Inr (isR, rl)"
| "constructor_loop (r # rs) isR rl =
     (if r = 0 then Inl (Revert ''Invalid relayer'')
      else if isR r then Inl (Revert ''Duplicate relayer'')
      else constructor_loop rs (isR(r := True)) (rl @ [r]))"

definition bridge_constructor :: "address \<Rightarrow> address list \<Rightarrow> evm_error + bridge_storage" where
  "bridge_constructor sender rs =
     (if length rs < MIN_CONFIRMATIONS then Inl (Revert ''Not enough relayers'')
      else (case constructor_loop rs (\<lambda>_. False) [] of
              Inl e \<Rightarrow> Inl e
            | Inr (isR, rl) \<Rightarrow>
                Inr \<lparr>b_owner = sender, escrowContract = 0, totalBridged = 0, bridgeNonce = 0,
                     bridgeFee = 1000000000000000, isRelayer = isR,
                     transfers = (\<lambda>_. \<lparr>bt_suiRecipient = 0, bt_amount = 0, bt_initiatedAt = 0,
                                        bt_confirmationCount = 0, bt_executed = False, bt_refunded = False\<rparr>),
                     confirmations = (\<lambda>_ _. False), relayers = rl\<rparr>))"

definition initiateBridge ::
  "evm_env \<Rightarrow> address \<Rightarrow> nat \<Rightarrow> nat \<Rightarrow> nat \<Rightarrow> nat \<Rightarrow> evm_world \<Rightarrow> evm_error + evm_world" where
  "initiateBridge env sender val now suiRecipient amount w0 =
     (case pay_in sender (bridgeAddr env) val w0 of
        None \<Rightarrow> Inl OutOfFunds
      | Some w \<Rightarrow>
         let b = bridgeC w in
         if suiRecipient = 0 then Inl (Revert ''Invalid recipient'')
         else if amount = 0 then Inl (Revert ''Invalid amount'')
         else if val < amount then Inl (Revert ''Insufficient value'')
         else if bridgeNonce b = UINT256_MAX then Inl Panic
         else
           let nonce = bridgeNonce b + 1;
               transferId = keccak256 env suiRecipient amount now nonce;
               t = \<lparr>bt_suiRecipient = suiRecipient, bt_amount = amount, bt_initiatedAt = now,
                    bt_confirmationCount = 0, bt_executed = False, bt_refunded = False\<rparr>
           in if UINT256_MAX < totalBridged b + amount then Inl Panic
              else
                let w1 = w\<lparr>bridgeC := b\<lparr>bridgeNonce := nonce,
                                          transfers := (transfers b)(transferId := t),
                                          totalBridged := totalBridged b + amount\<rparr>\<rparr>
                in if amount < val then
                     (case send_value env (bridgeAddr env) sender (val - amount) w1 of
                        None \<Rightarrow> Inl (Revert ''Refund failed'')
                      | Some w2 \<Rightarrow> Inr w2)
                   else Inr w1)"

definition executeBridge :: "nat \<Rightarrow> bridge_storage \<Rightarrow> bridge_storage" where
  "executeBridge transferId b =
     b\<lparr>transfers := (transfers b)(transferId := (transfers b transferId)\<lparr>bt_executed := True\<rparr>)\<rparr>"

definition confirmBridge :: "address \<Rightarrow> nat \<Rightarrow> evm_world \<Rightarrow> evm_error + evm_world" where
  "confirmBridge sender transferId w =
     (let b = bridgeC w; t = transfers b transferId in
      if isRelayer b sender then
        if bt_initiatedAt t = 0 then Inl (Revert ''Transfer not found'')
        else if bt_executed t then Inl (Revert ''Already executed'')
        else if bt_refunded t then Inl (Revert ''Already refunded'')
        else if confirmations b transferId sender then Inl (Revert ''Already confirmed'')
        else if bt_confirmationCount t = UINT256_MAX then Inl Panic
        else
          let b1 = b\<lparr>confirmations := (confirmations b)(transferId := (confirmations b transferId)(sender := True)),
                     transfers := (transfers b)(transferId := t\<lparr>bt_confirmationCount := bt_confirmationCount t + 1\<rparr>)\<rparr>
          in if MIN_CONFIRMATIONS \<le> bt_confirmationCount (transfers b1 transferId)
             then Inr (w\<lparr>bridgeC := executeBridge transferId b1\<rparr>)
             else Inr (w\<lparr>bridgeC := b1\<rparr>)
      else Inl (Revert ''Not relayer''))"

definition refundBridge ::
  "evm_env \<Rightarrow> nat \<Rightarrow> nat \<Rightarrow> address \<Rightarrow> evm_world \<Rightarrow> evm_error + evm_world" where
  "refundBridge env now transferId originalSender w =
     (let b = bridgeC w; t = transfers b transferId in
      if bt_initiatedAt t = 0 then Inl (Revert ''Transfer not found'')
      else if bt_executed t then Inl (Revert ''Already executed'')
      else if bt_refunded t then Inl (Revert ''Already refunded'')
      else if UINT256_MAX < bt_initiatedAt t + BRIDGE_TIMEOUT then Inl Panic
      else if now \<le> bt_initiatedAt t + BRIDGE_TIMEOUT then Inl (Revert ''Not timed out'')
      else if totalBridged b < bt_amount t then Inl Panic
      else
        let w1 = w\<lparr>bridgeC := b\<lparr>transfers := (transfers b)(transferId := t\<lparr>bt_refunded := True\<rparr>),
                                  totalBridged := totalBridged b - bt_amount t\<rparr>\<rparr>
        in (case send_value env (bridgeAddr env) originalSender (bt_amount t) w1 of
              None \<Rightarrow> Inl (Revert ''Refund failed'')
            | Some w2 \<Rightarrow> Inr w2))"

definition setEscrowContract :: "address \<Rightarrow> address \<Rightarrow> evm_world \<Rightarrow> evm_error + evm_world" where
  "setEscrowContract sender a w =
     (if sender = b_owner (bridgeC w) then Inr (w\<lparr>bridgeC := (bridgeC w)\<lparr>escrowContract := a\<rparr>\<rparr>)
      else Inl (Revert ''Not owner''))"

definition addRelayer :: "address \<Rightarrow> address \<Rightarrow> evm_world \<Rightarrow> evm_error + evm_world" where
  "addRelayer sender relayer w =
     (let b = bridgeC w in
      if sender = b_owner b then
        if isRelayer b relayer then Inl (Revert ''Already relayer'')
        else Inr (w\<lparr>bridgeC := b\<lparr>isRelayer := (isRelayer b)(relayer := True),
                                   relayers := relayers b @ [relayer]\<rparr>\<rparr>)
      else Inl (Revert ''Not owner''))"

text \<open>The removal loop: the first slot holding the relayer takes the last element, then \<open>pop\<close>.\<close>

function swap_remove :: "address \<Rightarrow> address list \<Rightarrow> nat \<Rightarrow> address list" where
  "swap_remove relayer rs i =
     (if i < length rs then
        if rs ! i = relayer then butlast (rs[i := rs ! (length rs - 1)])
        else swap_remove relayer rs (Suc i)
      else rs)"
  by pat_completeness auto
termination
  by (relation "measure (\<lambda>(relayer, rs, i). length rs - i)") auto

declare swap_remove.simps [simp del]

definition removeRelayer :: "address \<Rightarrow> address \<Rightarrow> evm_world \<Rightarrow> evm_error + evm_world" where
  "removeRelayer sender relayer w =
     (let b = bridgeC w in
      if sender = b_owner b then
        if isRelayer b relayer then
          if MIN_CONFIRMATIONS < length (relayers b) then
            Inr (w\<lparr>bridgeC := b\<lparr>isRelayer := (isRelayer b)(relayer := False),
                                  relayers := swap_remove relayer (relayers b) 0\<rparr>\<rparr>)
          else Inl (Revert ''Too few relayers'')
        else Inl (Revert ''Not relayer'')
      else Inl (Revert ''Not owner''))"

definition setBridgeFee :: "address \<Rightarrow> nat \<Rightarrow> evm_world \<Rightarrow> evm_error + evm_world" where
  "setBridgeFee sender fee w =
     (if sender = b_owner (bridgeC w) then Inr (w\<lparr>bridgeC := (bridgeC w)\<lparr>bridgeFee := fee\<rparr>\<rparr>)
      else Inl (Revert ''Not owner''))"

definition withdrawFees :: "evm_env \<Rightarrow> address \<Rightarrow> address \<Rightarrow> evm_world \<Rightarrow> evm_error + evm_world" where
  "withdrawFees env sender to w =
     (if sender = b_owner (bridgeC w) then
        let balance = eth w (bridgeAddr env) - 0 in
        if balance = 0 then Inl (Revert ''No fees'')
        else (case send_value env (bridgeAddr env) to balance w of
                None \<Rightarrow> Inl (Revert ''Withdraw failed'')
              | Some w1 \<Rightarrow> Inr w1)
      else Inl (Revert ''Not owner''))"

subsection \<open>AccorDefiEscrow\<close>

definition escrow_constructor :: "address \<Rightarrow> address \<Rightarrow> address \<Rightarrow> escrow_storage" where
  "escrow_constructor sender treasury0 bridge0 =
     \<lparr>owner = sender, treasury = treasury0, bridge = bridge0, totalEscrows = 0, totalVolume = 0,
      feeBps = PLATFORM_FEE_BPS,
      escrows = (\<lambda>_. \<lparr>e_id = 0, e_client = 0, e_freelancer = 0, e_title = [], e_description = [],
                         e_totalAmount = 0, e_balance = 0, e_status = Active, e_currentMilestone = 0,
                         e_createdAt = 0, e_updatedAt = 0, e_suiRecipient = 0, e_crossChain = False\<rparr>),
      escrowMilestones = (\<lambda>_. []),
      disputes = (\<lambda>_. \<lparr>d_initiatedBy = 0, d_initiatedAt = 0, d_reason = [], d_milestoneId = 0,
                          d_votesForClient = 0, d_votesForFreelancer = 0, d_resolved = False,
                          d_resolutionNote = []\<rparr>),
      hasVoted = (\<lambda>_ _. False), isArbiter = (\<lambda>_. False)\<rparr>"

text \<open>The loop \<open>total += milestoneAmounts[i]\<close> of \<open>createEscrow\<close>, each addition checked.\<close>

fun sum_amounts :: "nat \<Rightarrow> nat list \<Rightarrow> evm_error + nat" where
  "sum_amounts tot [] = Inr tot"
| "sum_amounts tot (a # amts) =
     (if UINT256_MAX < tot + a then Inl Panic else sum_amounts (tot + a) amts)"

text \<open>The milestones pushed by the second loop of \<open>createEscrow\<close>, for \<open>i = 0 .. n - 1\<close>.\<close>

definition new_milestones :: "string list \<Rightarrow> nat list \<Rightarrow> nat list \<Rightarrow> Milestone list" where
  "new_milestones ds amts dls =
     map (\<lambda>i. \<lparr>m_id = i, m_description = ds ! i, m_amount = amts ! i, m_status = Pending,
                m_deadline = dls ! i, m_submissionNote = [], m_submittedAt = 0\<rparr>) [0..<length ds]"

definition createEscrow ::
  "evm_env \<Rightarrow> address \<Rightarrow> nat \<Rightarrow> nat \<Rightarrow> address \<Rightarrow> string \<Rightarrow> string \<Rightarrow> string list \<Rightarrow> nat list \<Rightarrow> nat list
     \<Rightarrow> nat \<Rightarrow> bool \<Rightarrow> evm_world \<Rightarrow> evm_error + (nat \<times> evm_world)" where
  "createEscrow env sender val now freelancer title description milestoneDescriptions
       milestoneAmounts milestoneDeadlines suiRecipient crossChain w0 =
     (case pay_in sender (escrowAddr env) val w0 of
        None \<Rightarrow> Inl OutOfFunds
      | Some w \<Rightarrow>
         let s = escrowC w in
         if length milestoneDescriptions = 0 then Inl (Revert ''No milestones'')
         else if length milestoneDescriptions = length milestoneAmounts
                 \<and> length milestoneAmounts = length milestoneDeadlines then
           (case sum_amounts 0 milestoneAmounts of
              Inl e \<Rightarrow> Inl e
            | Inr tot \<Rightarrow>
               if val < tot then Inl (Revert ''Insufficient payment'')
               else if totalEscrows s = UINT256_MAX then Inl Panic
               else
                 let escrowId = totalEscrows s + 1;
                     e = \<lparr>e_id = escrowId, e_client = sender, e_freelancer = freelancer,
                          e_title = title, e_description = description, e_totalAmount = tot,
                          e_balance = val, e_status = Active, e_currentMilestone = 0,
                          e_createdAt = now, e_updatedAt = now, e_suiRecipient = suiRecipient,
                          e_crossChain = crossChain\<rparr>;
                     ms = escrowMilestones s escrowId
                            @ new_milestones milestoneDescriptions milestoneAmounts milestoneDeadlines
                 in if UINT256_MAX < totalVolume s + tot then Inl Panic
                    else
                      let w1 = w\<lparr>escrowC := s\<lparr>totalEscrows := escrowId,
                                                escrows := (escrows s)(escrowId := e),
                                                escrowMilestones := (escrowMilestones s)(escrowId := ms),
                                                totalVolume := totalVolume s + tot\<rparr>\<rparr>
                      in if tot < val then
                           (case send_value env (escrowAddr env) sender (val - tot) w1 of
                              None \<Rightarrow> Inl (Revert ''Refund failed'')
                            | Some w2 \<Rightarrow> Inr (escrowId, w2))
                         else Inr (escrowId, w1))
         else Inl (Revert ''Array length mismatch''))"

text \<open>Writes through the storage pointers \<open>escrows[escrowId]\<close> and \<open>escrowMilestones[escrowId][milestoneId]\<close>.\<close>

definition upd_escrow :: "nat \<Rightarrow> (Escrow \<Rightarrow> Escrow) \<Rightarrow> escrow_storage \<Rightarrow> escrow_storage" where
  "upd_escrow escrowId f s = s\<lparr>escrows := (escrows s)(escrowId := f (escrows s escrowId))\<rparr>"

definition upd_milestone :: "nat \<Rightarrow> nat \<Rightarrow> (Milestone \<Rightarrow> Milestone) \<Rightarrow> escrow_storage \<Rightarrow> escrow_storage" where
  "upd_milestone escrowId milestoneId f s =
     s\<lparr>escrowMilestones := (escrowMilestones s)(escrowId :=
          (escrowMilestones s escrowId)[milestoneId := f (escrowMilestones s escrowId ! milestoneId)])\<rparr>"

definition upd_dispute :: "nat \<Rightarrow> (Dispute \<Rightarrow> Dispute) \<Rightarrow> escrow_storage \<Rightarrow> escrow_storage" where
  "upd_dispute escrowId f s = s\<lparr>disputes := (disputes s)(escrowId := f (disputes s escrowId))\<rparr>"

definition terminal :: "Milestone \<Rightarrow> bool" where
  "terminal m = (m_status m = Released \<or> m_status m = Refunded)"

text \<open>The loop of \<open>_checkEscrowCompletion\<close> returns at the first milestone that is not terminal.\<close>

definition checkEscrowCompletion :: "nat \<Rightarrow> escrow_storage \<Rightarrow> escrow_storage" where
  "checkEscrowCompletion escrowId s =
     (if list_all terminal (escrowMilestones s escrowId)
      then upd_escrow escrowId (\<lambda>e. e\<lparr>e_status := Completed\<rparr>) s
      else s)"

definition submitMilestone ::
  "address \<Rightarrow> nat \<Rightarrow> nat \<Rightarrow> nat \<Rightarrow> string \<Rightarrow> evm_world \<Rightarrow> evm_error + evm_world" where
  "submitMilestone sender now escrowId milestoneId submissionNote w =
     (let s = escrowC w in
      if sender = e_freelancer (escrows s escrowId) then
        if e_status (escrows s escrowId) = Active then
          if milestoneId < length (escrowMilestones s escrowId) then
            if m_status (escrowMilestones s escrowId ! milestoneId) = Pending
               \<or> m_status (escrowMilestones s escrowId ! milestoneId) = InProgress
            then Inr (w\<lparr>escrowC :=
                   upd_escrow escrowId (\<lambda>e. e\<lparr>e_updatedAt := now\<rparr>)
                     (upd_milestone escrowId milestoneId
                        (\<lambda>m. m\<lparr>m_status := Submitted, m_submissionNote := submissionNote,
                                 m_submittedAt := now\<rparr>) s)\<rparr>)
            else Inl (Revert ''Milestone not pending'')
          else Inl (Revert ''Invalid milestone'')
        else Inl (Revert ''Escrow not active'')
      else Inl (Revert ''Not freelancer''))"

definition approveMilestone ::
  "address \<Rightarrow> nat \<Rightarrow> nat \<Rightarrow> nat \<Rightarrow> evm_world \<Rightarrow> evm_error + evm_world" where
  "approveMilestone sender now escrowId milestoneId w =
     (let s = escrowC w in
      if sender = e_client (escrows s escrowId) then
        if e_status (escrows s escrowId) = Active then
          if milestoneId < length (escrowMilestones s escrowId) then
            if m_status (escrowMilestones s escrowId ! milestoneId) = Submitted
            then Inr (w\<lparr>escrowC :=
                   upd_escrow escrowId (\<lambda>e. e\<lparr>e_updatedAt := now\<rparr>)
                     (upd_milestone escrowId milestoneId (\<lambda>m. m\<lparr>m_status := Approved\<rparr>) s)\<rparr>)
            else Inl (Revert ''Milestone not submitted'')
          else Inl (Revert ''Invalid milestone'')
        else Inl (Revert ''Escrow not active'')
      else Inl (Revert ''Not client''))"

text \<open>
  The payout shared by \<open>releaseMilestone\<close> and the freelancer branch of \<open>_resolveDispute\<close>:
  \<open>bridge.initiateBridge{value: freelancerAmount}(suiRecipient, freelancerAmount)\<close> for a
  cross-chain escrow, a value transfer to the freelancer otherwise, then the fee to the
  treasury when it is positive. The external call reaches the bridge of this repository
  when the \<open>bridge\<close> variable holds its address; a call to any other address is taken to fail.
\<close>

definition pay_out :: "evm_env \<Rightarrow> nat \<Rightarrow> Escrow \<Rightarrow> nat \<Rightarrow> nat \<Rightarrow> evm_world \<Rightarrow> evm_error + evm_world" where
  "pay_out env now escrow freelancerAmount fee w =
     (case (if e_crossChain escrow then
              (if bridge (escrowC w) = bridgeAddr env
               then initiateBridge env (escrowAddr env) freelancerAmount now
                      (e_suiRecipient escrow) freelancerAmount w
               else Inl (Revert ''Bridge call failed''))
            else (case send_value env (escrowAddr env) (e_freelancer escrow) freelancerAmount w of
                    None \<Rightarrow> Inl (Revert ''Transfer failed'')
                  | Some w1 \<Rightarrow> Inr w1)) of
        Inl e \<Rightarrow> Inl e
      | Inr w1 \<Rightarrow>
          if 0 < fee then
            (case send_value env (escrowAddr env) (treasury (escrowC w1)) fee w1 of
               None \<Rightarrow> Inl (Revert ''Fee transfer failed'')
             | Some w2 \<Rightarrow> Inr w2)
          else Inr w1)"

definition releaseMilestone ::
  "evm_env \<Rightarrow> address \<Rightarrow> nat \<Rightarrow> nat \<Rightarrow> nat \<Rightarrow> evm_world \<Rightarrow> evm_error + evm_world" where
  "releaseMilestone env sender now escrowId milestoneId w =
     (let s = escrowC w in
      if sender = e_client (escrows s escrowId) then
        if e_status (escrows s escrowId) = Active then
          if milestoneId < length (escrowMilestones s escrowId) then
            if m_status (escrowMilestones s escrowId ! milestoneId) = Approved then
              let amount = m_amount (escrowMilestones s escrowId ! milestoneId) in
              if e_balance (escrows s escrowId) < amount then Inl (Revert ''Insufficient balance'')
              else if UINT256_MAX < amount * feeBps s then Inl Panic
              else
                let fee = (amount * feeBps s) div 10000 in
                if amount < fee then Inl Panic
                else
                  let freelancerAmount = amount - fee;
                      s1 = upd_escrow escrowId
                             (\<lambda>e. e\<lparr>e_balance := e_balance e - amount, e_updatedAt := now\<rparr>)
                             (upd_milestone escrowId milestoneId (\<lambda>m. m\<lparr>m_status := Released\<rparr>) s)
                  in (case pay_out env now (escrows s1 escrowId) freelancerAmount fee
                             (w\<lparr>escrowC := s1\<rparr>) of
                        Inl e \<Rightarrow> Inl e
                      | Inr w1 \<Rightarrow> Inr (w1\<lparr>escrowC := checkEscrowCompletion escrowId (escrowC w1)\<rparr>))
            else Inl (Revert ''Milestone not approved'')
          else Inl (Revert ''Invalid milestone'')
        else Inl (Revert ''Escrow not active'')
      else Inl (Revert ''Not client''))"

definition initiateDispute ::
  "address \<Rightarrow> nat \<Rightarrow> nat \<Rightarrow> nat \<Rightarrow> string \<Rightarrow> evm_world \<Rightarrow> evm_error + evm_world" where
  "initiateDispute sender now escrowId milestoneId reason w =
     (let s = escrowC w in
      if sender = e_client (escrows s escrowId) \<or> sender = e_freelancer (escrows s escrowId) then
        if e_status (escrows s escrowId) = Active then
          if milestoneId < length (escrowMilestones s escrowId) then
            if d_initiatedAt (disputes s escrowId) = 0 then
              Inr (w\<lparr>escrowC :=
                upd_escrow escrowId (\<lambda>e. e\<lparr>e_status := Escrow_Disputed, e_updatedAt := now\<rparr>)
                  ((upd_milestone escrowId milestoneId (\<lambda>m. m\<lparr>m_status := Disputed\<rparr>) s)
                     \<lparr>disputes := (disputes s)(escrowId :=
                         \<lparr>d_initiatedBy = sender, d_initiatedAt = now, d_reason = reason,
                          d_milestoneId = milestoneId, d_votesForClient = 0,
                          d_votesForFreelancer = 0, d_resolved = False, d_resolutionNote = []\<rparr>)\<rparr>)\<rparr>)
            else Inl (Revert ''Dispute exists'')
          else Inl (Revert ''Invalid milestone'')
        else Inl (Revert ''Escrow not active'')
      else Inl (Revert ''Not party''))"

definition resolveDispute :: "evm_env \<Rightarrow> nat \<Rightarrow> nat \<Rightarrow> evm_world \<Rightarrow> evm_error + evm_world" where
  "resolveDispute env now escrowId w =
     (let s = escrowC w; dispute = disputes s escrowId; milestoneId = d_milestoneId dispute in
      if milestoneId < length (escrowMilestones s escrowId) then
        (case (if d_votesForFreelancer dispute < d_votesForClient dispute then
                 Inr (''Resolved in favor of client'',
                      w\<lparr>escrowC := upd_milestone escrowId milestoneId (\<lambda>m. m\<lparr>m_status := Refunded\<rparr>) s\<rparr>)
               else
                 let amount = m_amount (escrowMilestones s escrowId ! milestoneId) in
                 if UINT256_MAX < amount * feeBps s then Inl Panic
                 else
                   let fee = (amount * feeBps s) div 10000 in
                   if amount < fee then Inl Panic
                   else if e_balance (escrows s escrowId) < amount then Inl Panic
                   else
                     let freelancerAmount = amount - fee;
                         s1 = upd_escrow escrowId (\<lambda>e. e\<lparr>e_balance := e_balance e - amount\<rparr>)
                                (upd_milestone escrowId milestoneId (\<lambda>m. m\<lparr>m_status := Released\<rparr>) s)
                     in (case pay_out env now (escrows s1 escrowId) freelancerAmount fee
                                (w\<lparr>escrowC := s1\<rparr>) of
                           Inl e \<Rightarrow> Inl e
                         | Inr w1 \<Rightarrow> Inr (''Resolved in favor of freelancer'', w1))) of
           Inl e \<Rightarrow> Inl e
         | Inr (resolution, w1) \<Rightarrow>
             Inr (w1\<lparr>escrowC :=
               checkEscrowCompletion escrowId
                 (upd_escrow escrowId (\<lambda>e. e\<lparr>e_status := Active, e_updatedAt := now\<rparr>)
                    (upd_dispute escrowId
                       (\<lambda>d. d\<lparr>d_resolved := True, d_resolutionNote := resolution\<rparr>) (escrowC w1)))\<rparr>))
      else Inl Panic)"

definition voteDispute ::
  "evm_env \<Rightarrow> address \<Rightarrow> nat \<Rightarrow> nat \<Rightarrow> bool \<Rightarrow> evm_world \<Rightarrow> evm_error + evm_world" where
  "voteDispute env sender now escrowId voteForClient w =
     (let s = escrowC w in
      if isArbiter s sender then
        if e_status (escrows s escrowId) = Escrow_Disputed then
          if d_resolved (disputes s escrowId) then Inl (Revert ''Dispute resolved'')
          else if hasVoted s escrowId sender then Inl (Revert ''Already voted'')
          else if (if voteForClient then d_votesForClient (disputes s escrowId)
                   else d_votesForFreelancer (disputes s escrowId)) = UINT256_MAX then Inl Panic
          else
            let s1 = upd_dispute escrowId
                       (\<lambda>d. if voteForClient then d\<lparr>d_votesForClient := d_votesForClient d + 1\<rparr>
                            else d\<lparr>d_votesForFreelancer := d_votesForFreelancer d + 1\<rparr>)
                       (s\<lparr>hasVoted := (hasVoted s)(escrowId := (hasVoted s escrowId)(sender := True))\<rparr>);
                totalVotes = d_votesForClient (disputes s1 escrowId)
                               + d_votesForFreelancer (disputes s1 escrowId)
            in if UINT256_MAX < totalVotes then Inl Panic
               else if MIN_ARBITERS \<le> totalVotes then resolveDispute env now escrowId (w\<lparr>escrowC := s1\<rparr>)
               else Inr (w\<lparr>escrowC := s1\<rparr>)
        else Inl (Revert ''No active dispute'')
      else Inl (Revert ''Not arbiter''))"

definition refundToClient ::
  "evm_env \<Rightarrow> address \<Rightarrow> nat \<Rightarrow> nat \<Rightarrow> evm_world \<Rightarrow> evm_error + evm_world" where
  "refundToClient env sender now escrowId w =
     (let s = escrowC w; escrow = escrows s escrowId in
      if sender = e_client escrow then
        if e_status escrow = Cancelled \<or> e_status escrow = Escrow_Refunded then
          let amount = e_balance escrow in
          if amount = 0 then Inl (Revert ''No balance'')
          else (case send_value env (escrowAddr env) (e_client escrow) amount
                       (w\<lparr>escrowC := upd_escrow escrowId
                                         (\<lambda>e. e\<lparr>e_balance := 0, e_updatedAt := now\<rparr>) s\<rparr>) of
                  None \<Rightarrow> Inl (Revert ''Refund failed'')
                | Some w1 \<Rightarrow> Inr w1)
        else Inl (Revert ''Cannot refund'')
      else Inl (Revert ''Not client''))"

definition registerArbiter :: "address \<Rightarrow> address \<Rightarrow> evm_world \<Rightarrow> evm_error + evm_world" where
  "registerArbiter sender arbiter w =
     (let s = escrowC w in
      if sender = owner s then Inr (w\<lparr>escrowC := s\<lparr>isArbiter := (isArbiter s)(arbiter := True)\<rparr>\<rparr>)
      else Inl (Revert ''Not owner''))"

definition removeArbiter :: "address \<Rightarrow> address \<Rightarrow> evm_world \<Rightarrow> evm_error + evm_world" where
  "removeArbiter sender arbiter w =
     (let s = escrowC w in
      if sender = owner s then Inr (w\<lparr>escrowC := s\<lparr>isArbiter := (isArbiter s)(arbiter := False)\<rparr>\<rparr>)
      else Inl (Revert ''Not owner''))"

definition updateFee :: "address \<Rightarrow> nat \<Rightarrow> evm_world \<Rightarrow> evm_error + evm_world" where
  "updateFee sender newFeeBps w =
     (let s = escrowC w in
      if sender = owner s then
        if 500 < newFeeBps then Inl (Revert ''Fee too high'')
        else Inr (w\<lparr>escrowC := s\<lparr>feeBps := newFeeBps\<rparr>\<rparr>)
      else Inl (Revert ''Not owner''))"

definition updateTreasury :: "address \<Rightarrow> address \<Rightarrow> evm_world \<Rightarrow> evm_error + evm_world" where
  "updateTreasury sender newTreasury w =
     (let s = escrowC w in
      if sender = owner s then Inr (w\<lparr>escrowC := s\<lparr>treasury := newTreasury\<rparr>\<rparr>)
      else Inl (Revert ''Not owner''))"

definition updateBridge :: "address \<Rightarrow> address \<Rightarrow> evm_world \<Rightarrow> evm_error + evm_world" where
  "updateBridge sender newBridge w =
     (let s = escrowC w in
      if sender = owner s then Inr (w\<lparr>escrowC := s\<lparr>bridge := newBridge\<rparr>\<rparr>)
      else Inl (Revert ''Not owner''))"

subsection \<open>Transactions on the EVM world\<close>

datatype evm_call =
    CreateEscrow nat address string string "string list" "nat list" "nat list" nat bool
  | SubmitMilestone nat nat string
  | ApproveMilestone nat nat
  | ReleaseMilestone nat nat
  | InitiateDispute nat nat string
  | VoteDispute nat bool
  | RefundToClient nat
  | RegisterArbiter address
  | RemoveArbiter address
  | UpdateFee nat
  | UpdateTreasury address
  | UpdateBridge address
  | InitiateBridge nat nat nat
  | ConfirmBridge nat
  | RefundBridge nat address
  | SetEscrowContract address
  | AddRelayer address
  | RemoveRelayer address
  | SetBridgeFee nat
  | WithdrawFees address

fun evm_exec :: "evm_env \<Rightarrow> address \<Rightarrow> nat \<Rightarrow> evm_call \<Rightarrow> evm_world \<Rightarrow> evm_error + evm_world" where
  "evm_exec env sender now (CreateEscrow val fr ti de ds amts dls sr cc) w =
     (case createEscrow env sender val now fr ti de ds amts dls sr cc w of
        Inl e \<Rightarrow> Inl e | Inr (escrowId, w1) \<Rightarrow> Inr w1)"
| "evm_exec env sender now (SubmitMilestone eid mid note) w = submitMilestone sender now eid mid note w"
| "evm_exec env sender now (ApproveMilestone eid mid) w = approveMilestone sender now eid mid w"
| "evm_exec env sender now (ReleaseMilestone eid mid) w = releaseMilestone env sender now eid mid w"
| "evm_exec env sender now (InitiateDispute eid mid reason) w = initiateDispute sender now eid mid reason w"
| "evm_exec env sender now (VoteDispute eid v) w = voteDispute env sender now eid v w"
| "evm_exec env sender now (RefundToClient eid) w = refundToClient env sender now eid w"
| "evm_exec env sender now (RegisterArbiter a) w = registerArbiter sender a w"
| "evm_exec env sender now (RemoveArbiter a) w = removeArbiter sender a w"
| "evm_exec env sender now (UpdateFee f) w = updateFee sender f w"
| "evm_exec env sender now (UpdateTreasury t) w = updateTreasury sender t w"
| "evm_exec env sender now (UpdateBridge b) w = updateBridge sender b w"
| "evm_exec env sender now (InitiateBridge val r a) w = initiateBridge env sender val now r a w"
| "evm_exec env sender now (ConfirmBridge tid) w = confirmBridge sender tid w"
| "evm_exec env sender now (RefundBridge tid a) w = refundBridge env now tid a w"
| "evm_exec env sender now (SetEscrowContract a) w = setEscrowContract sender a w"
| "evm_exec env sender now (AddRelayer a) w = addRelayer sender a w"
| "evm_exec env sender now (RemoveRelayer a) w = removeRelayer sender a w"
| "evm_exec env sender now (SetBridgeFee f) w = setBridgeFee sender f w"
| "evm_exec env sender now (WithdrawFees a) w = withdrawFees env sender a w"

text \<open>A list of transactions (sender, block time, call); a transaction that reverts changes nothing.\<close>

fun evm_run :: "evm_env \<Rightarrow> (address \<times> nat \<times> evm_call) list \<Rightarrow> evm_world \<Rightarrow> evm_world" where
  "evm_run env [] w = w"
| "evm_run env ((sender, now, c) # txs) w =
     evm_run env txs (case evm_exec env sender now c w of Inl e \<Rightarrow> w | Inr w1 \<Rightarrow> w1)"

section \<open>Sui chain: module \<open>crosschain_escrow::escrow\<close>\<close>

text \<open>
  A \<open>u64\<close> is a natural number and every addition, subtraction and multiplication carries
  Move's overflow check (\<open>ArithmeticError\<close>). An \<open>assert!\<close> that fails is \<open>Abort code\<close>.
  The escrow is a shared object; its \<open>Balance<SUI>\<close> is the number of MIST it holds.
  \<open>coins\<close> is the amount of SUI each address owns; \<open>transfer::public_transfer\<close> of a coin
  adds its value to the receiver. Byte strings are taken to be valid UTF-8. Events are
  left out.
\<close>

definition U64_MAX :: nat where
  "U64_MAX = 2 ^ 64 - 1"

datatype sui_error = Abort nat | ArithmeticError | BalanceNotEnough | TableKeyExists
  | NoSuchObject | CoinNotOwned

abbreviation (input) "ENotClient \<equiv> (0::nat)"
abbreviation (input) "ENotFreelancer \<equiv> (1::nat)"
abbreviation (input) "ENotArbiter \<equiv> (2::nat)"
abbreviation (input) "EInvalidMilestone \<equiv> (3::nat)"
abbreviation (input) "EMilestoneNotPending \<equiv> (4::nat)"
abbreviation (input) "EMilestoneNotApproved \<equiv> (5::nat)"
abbreviation (input) "EInsufficientFunds \<equiv> (6::nat)"
abbreviation (input) "EEscrowNotActive \<equiv> (7::nat)"
abbreviation (input) "EEscrowAlreadyDisputed \<equiv> (8::nat)"
abbreviation (input) "EDisputeNotActive \<equiv> (9::nat)"
abbreviation (input) "EAlreadyVoted \<equiv> (11::nat)"
abbreviation (input) "ENoMilestones \<equiv> (13::nat)"

abbreviation (input) "SUI_MIN_ARBITERS \<equiv> (3::nat)"
abbreviation (input) "SUI_PLATFORM_FEE_BPS \<equiv> (100::nat)"

abbreviation (input) "MILESTONE_PENDING \<equiv> (0::nat)"
abbreviation (input) "MILESTONE_IN_PROGRESS \<equiv> (1::nat)"
abbreviation (input) "MILESTONE_SUBMITTED \<equiv> (2::nat)"
abbreviation (input) "MILESTONE_APPROVED \<equiv> (3::nat)"
abbreviation (input) "MILESTONE_DISPUTED \<equiv> (4::nat)"
abbreviation (input) "MILESTONE_RELEASED \<equiv> (5::nat)"
abbreviation (input) "MILESTONE_REFUNDED \<equiv> (6::nat)"

abbreviation (input) "ESCROW_ACTIVE \<equiv> (0::nat)"
abbreviation (input) "ESCROW_COMPLETED \<equiv> (1::nat)"
abbreviation (input) "ESCROW_DISPUTED \<equiv> (2::nat)"
abbreviation (input) "ESCROW_CANCELLED \<equiv> (3::nat)"
abbreviation (input) "ESCROW_REFUNDED \<equiv> (4::nat)"

record ArbiterInfo =
  reputation :: nat
  cases_resolved :: nat
  is_active :: bool

record PlatformConfig =
  pc_admin :: address
  pc_fee_bps :: nat
  pc_treasury :: address
  pc_total_escrows :: nat
  pc_total_volume :: nat
  pc_arbiter_registry :: "address \<Rightarrow> ArbiterInfo option"

record SuiMilestone =
  sm_id :: nat
  sm_description :: string
  sm_amount :: nat
  sm_status :: nat
  sm_deadline :: nat
  sm_submission_note :: string
  sm_submitted_at :: nat

record SuiDispute =
  sd_initiated_by :: address
  sd_initiated_at :: nat
  sd_reason :: string
  sd_milestone_id :: nat
  sd_votes_for_client :: nat
  sd_votes_for_freelancer :: nat
  sd_voters :: "address list"
  sd_resolved :: bool
  sd_resolution_note :: string

record SuiEscrow =
  se_uid :: nat
  se_escrow_id :: nat
  se_client :: address
  se_freelancer :: address
  se_title :: string
  se_description :: string
  se_total_amount :: nat
  se_balance :: nat
  se_milestones :: "SuiMilestone list"
  se_current_milestone :: nat
  se_status :: nat
  se_dispute :: "SuiDispute option"
  se_arbiters :: "address list"
  se_created_at :: nat
  se_updated_at :: nat
  se_source_chain :: string
  se_source_tx_hash :: string

record EscrowReceipt =
  rc_uid :: nat
  rc_escrow_id :: nat
  rc_client :: address
  rc_amount :: nat

record sui_world =
  config :: PlatformConfig
  escrow_objects :: "nat \<Rightarrow> SuiEscrow option"
  receipts :: "EscrowReceipt list"
  coins :: "address \<Rightarrow> nat"
  next_uid :: nat

definition sui_init :: "address \<Rightarrow> PlatformConfig" where
  "sui_init sender =
     \<lparr>pc_admin = sender, pc_fee_bps = SUI_PLATFORM_FEE_BPS, pc_treasury = sender,
      pc_total_escrows = 0, pc_total_volume = 0, pc_arbiter_registry = (\<lambda>_. None)\<rparr>"

definition public_transfer :: "nat \<Rightarrow> address \<Rightarrow> (address \<Rightarrow> nat) \<Rightarrow> (address \<Rightarrow> nat)" where
  "public_transfer v recipient cs = cs(recipient := cs recipient + v)"

text \<open>The first loop of \<open>create_escrow\<close>: \<open>total_amount = total_amount + amounts[i]\<close>.\<close>

fun sui_sum_amounts :: "nat \<Rightarrow> nat list \<Rightarrow> sui_error + nat" where
  "sui_sum_amounts tot [] = Inr tot"
| "sui_sum_amounts tot (a # amts) =
     (if U64_MAX < tot + a then Inl ArithmeticError else sui_sum_amounts (tot + a) amts)"

definition sui_new_milestones :: "string list \<Rightarrow> nat list \<Rightarrow> nat list \<Rightarrow> SuiMilestone list" where
  "sui_new_milestones ds amts dls =
     map (\<lambda>i. \<lparr>sm_id = i, sm_description = ds ! i, sm_amount = amts ! i,
                sm_status = MILESTONE_PENDING, sm_deadline = dls ! i, sm_submission_note = [],
                sm_submitted_at = 0\<rparr>) [0..<length ds]"

definition create_escrow ::
  "address \<Rightarrow> nat \<Rightarrow> address \<Rightarrow> string \<Rightarrow> string \<Rightarrow> string list \<Rightarrow> nat list \<Rightarrow> nat list
     \<Rightarrow> string \<Rightarrow> string \<Rightarrow> nat \<Rightarrow> sui_world \<Rightarrow> sui_error + sui_world" where
  "create_escrow sender now freelancer title description milestone_descriptions milestone_amounts
       milestone_deadlines source_chain source_tx_hash payment w =
     (if coins w sender < payment then Inl CoinNotOwned
      else
        let cfg = config w; milestone_count = length milestone_descriptions in
        if milestone_count = 0 then Inl (Abort ENoMilestones)
        else if milestone_count = length milestone_amounts then
          if milestone_count = length milestone_deadlines then
            (case sui_sum_amounts 0 milestone_amounts of
               Inl e \<Rightarrow> Inl e
             | Inr total_amount \<Rightarrow>
                if payment < total_amount then Inl (Abort EInsufficientFunds)
                else if U64_MAX < pc_total_escrows cfg + 1 then Inl ArithmeticError
                else if U64_MAX < pc_total_volume cfg + total_amount then Inl ArithmeticError
                else
                  let escrow = \<lparr>se_uid = next_uid w, se_escrow_id = pc_total_escrows cfg + 1,
                                 se_client = sender, se_freelancer = freelancer, se_title = title,
                                 se_description = description, se_total_amount = total_amount,
                                 se_balance = payment,
                                 se_milestones = sui_new_milestones milestone_descriptions
                                                   milestone_amounts milestone_deadlines,
                                 se_current_milestone = 0, se_status = ESCROW_ACTIVE,
                                 se_dispute = None, se_arbiters = [], se_created_at = now,
                                 se_updated_at = now, se_source_chain = source_chain,
                                 se_source_tx_hash = source_tx_hash\<rparr>;
                      receipt = \<lparr>rc_uid = next_uid w + 1, rc_escrow_id = next_uid w,
                                  rc_client = sender, rc_amount = total_amount\<rparr>
                  in Inr (w\<lparr>config := cfg\<lparr>pc_total_escrows := pc_total_escrows cfg + 1,
                                            pc_total_volume := pc_total_volume cfg + total_amount\<rparr>,
                            escrow_objects := (escrow_objects w)(next_uid w := Some escrow),
                            receipts := receipts w @ [receipt],
                            coins := (coins w)(sender := coins w sender - payment),
                            next_uid := next_uid w + 2\<rparr>))
          else Inl (Abort EInvalidMilestone)
        else Inl (Abort EInvalidMilestone))"

definition sui_upd_milestone :: "nat \<Rightarrow> (SuiMilestone \<Rightarrow> SuiMilestone) \<Rightarrow> SuiEscrow \<Rightarrow> SuiEscrow" where
  "sui_upd_milestone milestone_id f escrow =
     escrow\<lparr>se_milestones := (se_milestones escrow)[milestone_id := f (se_milestones escrow ! milestone_id)]\<rparr>"

definition sui_terminal :: "SuiMilestone \<Rightarrow> bool" where
  "sui_terminal m = (sm_status m = MILESTONE_RELEASED \<or> sm_status m = MILESTONE_REFUNDED)"

definition check_escrow_completion :: "SuiEscrow \<Rightarrow> SuiEscrow" where
  "check_escrow_completion escrow =
     (if list_all sui_terminal (se_milestones escrow)
      then escrow\<lparr>se_status := ESCROW_COMPLETED\<rparr> else escrow)"

definition submit_milestone ::
  "address \<Rightarrow> nat \<Rightarrow> nat \<Rightarrow> string \<Rightarrow> SuiEscrow \<Rightarrow> sui_error + SuiEscrow" where
  "submit_milestone sender now milestone_id submission_note escrow =
     (if sender = se_freelancer escrow then
        if se_status escrow = ESCROW_ACTIVE then
          if milestone_id < length (se_milestones escrow) then
            if sm_status (se_milestones escrow ! milestone_id) = MILESTONE_PENDING
               \<or> sm_status (se_milestones escrow ! milestone_id) = MILESTONE_IN_PROGRESS
            then Inr ((sui_upd_milestone milestone_id
                         (\<lambda>m. m\<lparr>sm_status := MILESTONE_SUBMITTED, sm_submission_note := submission_note,
                                  sm_submitted_at := now\<rparr>) escrow)\<lparr>se_updated_at := now\<rparr>)
            else Inl (Abort EMilestoneNotPending)
          else Inl (Abort EInvalidMilestone)
        else Inl (Abort EEscrowNotActive)
      else Inl (Abort ENotFreelancer))"

definition approve_milestone ::
  "address \<Rightarrow> nat \<Rightarrow> nat \<Rightarrow> SuiEscrow \<Rightarrow> sui_error + SuiEscrow" where
  "approve_milestone sender now milestone_id escrow =
     (if sender = se_client escrow then
        if se_status escrow = ESCROW_ACTIVE then
          if milestone_id < length (se_milestones escrow) then
            if sm_status (se_milestones escrow ! milestone_id) = MILESTONE_SUBMITTED
            then Inr ((sui_upd_milestone milestone_id (\<lambda>m. m\<lparr>sm_status := MILESTONE_APPROVED\<rparr>) escrow)
                        \<lparr>se_updated_at := now\<rparr>)
            else Inl (Abort EMilestoneNotPending)
          else Inl (Abort EInvalidMilestone)
        else Inl (Abort EEscrowNotActive)
      else Inl (Abort ENotClient))"

definition release_milestone ::
  "address \<Rightarrow> nat \<Rightarrow> nat \<Rightarrow> PlatformConfig \<Rightarrow> SuiEscrow \<Rightarrow> (address \<Rightarrow> nat)
     \<Rightarrow> sui_error + (SuiEscrow \<times> (address \<Rightarrow> nat))" where
  "release_milestone sender now milestone_id cfg escrow cs =
     (if sender = se_client escrow \<or> sender = pc_admin cfg then
        if se_status escrow = ESCROW_ACTIVE then
          if milestone_id < length (se_milestones escrow) then
            if sm_status (se_milestones escrow ! milestone_id) = MILESTONE_APPROVED then
              let amount = sm_amount (se_milestones escrow ! milestone_id) in
              if se_balance escrow < amount then Inl (Abort EInsufficientFunds)
              else if U64_MAX < amount * pc_fee_bps cfg then Inl ArithmeticError
              else
                let fee = (amount * pc_fee_bps cfg) div 10000 in
                if amount < fee then Inl ArithmeticError
                else
                  let freelancer_amount = amount - fee;
                      e1 = (sui_upd_milestone milestone_id (\<lambda>m. m\<lparr>sm_status := MILESTONE_RELEASED\<rparr>) escrow)
                             \<lparr>se_updated_at := now\<rparr>
                  in if se_balance e1 < freelancer_amount then Inl BalanceNotEnough
                     else
                       let e2 = e1\<lparr>se_balance := se_balance e1 - freelancer_amount\<rparr>;
                           cs1 = public_transfer freelancer_amount (se_freelancer e2) cs
                       in if 0 < fee then
                            if se_balance e2 < fee then Inl BalanceNotEnough
                            else Inr (check_escrow_completion (e2\<lparr>se_balance := se_balance e2 - fee\<rparr>),
                                      public_transfer fee (pc_treasury cfg) cs1)
                          else Inr (check_escrow_completion e2, cs1)
            else Inl (Abort EMilestoneNotApproved)
          else Inl (Abort EInvalidMilestone)
        else Inl (Abort EEscrowNotActive)
      else Inl (Abort ENotClient))"

definition initiate_dispute ::
  "address \<Rightarrow> nat \<Rightarrow> nat \<Rightarrow> string \<Rightarrow> SuiEscrow \<Rightarrow> sui_error + SuiEscrow" where
  "initiate_dispute sender now milestone_id reason escrow =
     (if sender = se_client escrow \<or> sender = se_freelancer escrow then
        if se_status escrow = ESCROW_ACTIVE then
          if se_dispute escrow = None then
            if milestone_id < length (se_milestones escrow) then
              Inr ((sui_upd_milestone milestone_id (\<lambda>m. m\<lparr>sm_status := MILESTONE_DISPUTED\<rparr>) escrow)
                     \<lparr>se_dispute := Some \<lparr>sd_initiated_by = sender, sd_initiated_at = now,
                                           sd_reason = reason, sd_milestone_id = milestone_id,
                                           sd_votes_for_client = 0, sd_votes_for_freelancer = 0,
                                           sd_voters = [], sd_resolved = False,
                                           sd_resolution_note = []\<rparr>,
                      se_status := ESCROW_DISPUTED, se_updated_at := now\<rparr>)
            else Inl (Abort EInvalidMilestone)
          else Inl (Abort EEscrowAlreadyDisputed)
        else Inl (Abort EEscrowNotActive)
      else Inl (Abort ENotClient))"

text \<open>
  \<open>resolve_dispute_internal\<close>. The freelancer branch pays only what the balance covers:
  nothing when it is below \<open>amount - fee\<close>, and no fee when what is left is below the fee.
  \<open>option::borrow_mut\<close> of an empty option and \<open>vector::borrow_mut\<close> out of range abort
  with the codes of the Move standard library.
\<close>

definition resolve_dispute_internal ::
  "nat \<Rightarrow> PlatformConfig \<Rightarrow> SuiEscrow \<Rightarrow> (address \<Rightarrow> nat)
     \<Rightarrow> sui_error + (SuiEscrow \<times> (address \<Rightarrow> nat))" where
  "resolve_dispute_internal now cfg escrow cs =
     (case se_dispute escrow of
        None \<Rightarrow> Inl (Abort 262145)
      | Some d \<Rightarrow>
        let milestone_id = sd_milestone_id d in
        if milestone_id < length (se_milestones escrow) then
          let amount = sm_amount (se_milestones escrow ! milestone_id) in
          (case (if sd_votes_for_freelancer d < sd_votes_for_client d then
                   Inr (''Resolved in favor of client'',
                        sui_upd_milestone milestone_id (\<lambda>m. m\<lparr>sm_status := MILESTONE_REFUNDED\<rparr>) escrow, cs)
                 else
                   let e1 = sui_upd_milestone milestone_id (\<lambda>m. m\<lparr>sm_status := MILESTONE_RELEASED\<rparr>) escrow in
                   if U64_MAX < amount * pc_fee_bps cfg then Inl ArithmeticError
                   else
                     let fee = (amount * pc_fee_bps cfg) div 10000 in
                     if amount < fee then Inl ArithmeticError
                     else
                       let freelancer_amount = amount - fee in
                       if freelancer_amount \<le> se_balance e1 then
                         let e2 = e1\<lparr>se_balance := se_balance e1 - freelancer_amount\<rparr>;
                             cs1 = public_transfer freelancer_amount (se_freelancer e2) cs
                         in if 0 < fee \<and> fee \<le> se_balance e2 then
                              Inr (''Resolved in favor of freelancer'',
                                   e2\<lparr>se_balance := se_balance e2 - fee\<rparr>,
                                   public_transfer fee (pc_treasury cfg) cs1)
                            else Inr (''Resolved in favor of freelancer'', e2, cs1)
                       else Inr (''Resolved in favor of freelancer'', e1, cs)) of
             Inl e \<Rightarrow> Inl e
           | Inr (resolution, e3, cs3) \<Rightarrow>
               Inr (check_escrow_completion
                      (e3\<lparr>se_dispute := Some (d\<lparr>sd_resolved := True, sd_resolution_note := resolution\<rparr>),
                          se_status := ESCROW_ACTIVE, se_updated_at := now\<rparr>), cs3))
        else Inl (Abort 131072))"

definition vote_dispute ::
  "address \<Rightarrow> nat \<Rightarrow> bool \<Rightarrow> PlatformConfig \<Rightarrow> SuiEscrow \<Rightarrow> (address \<Rightarrow> nat)
     \<Rightarrow> sui_error + (SuiEscrow \<times> (address \<Rightarrow> nat))" where
  "vote_dispute sender now vote_for_client cfg escrow cs =
     (if se_status escrow = ESCROW_DISPUTED then
        (case se_dispute escrow of
           None \<Rightarrow> Inl (Abort EDisputeNotActive)
         | Some dispute \<Rightarrow>
             if pc_arbiter_registry cfg sender = None then Inl (Abort ENotArbiter)
             else if sd_resolved dispute then Inl (Abort EDisputeNotActive)
             else if sender \<in> set (sd_voters dispute) then Inl (Abort EAlreadyVoted)
             else if U64_MAX < (if vote_for_client then sd_votes_for_client dispute
                                else sd_votes_for_freelancer dispute) + 1 then Inl ArithmeticError
             else
               let d1 = (if vote_for_client
                         then dispute\<lparr>sd_voters := sd_voters dispute @ [sender],
                                      sd_votes_for_client := sd_votes_for_client dispute + 1\<rparr>
                         else dispute\<lparr>sd_voters := sd_voters dispute @ [sender],
                                      sd_votes_for_freelancer := sd_votes_for_freelancer dispute + 1\<rparr>);
                   e1 = escrow\<lparr>se_dispute := Some d1, se_updated_at := now\<rparr>;
                   total_votes = sd_votes_for_client d1 + sd_votes_for_freelancer d1
               in if U64_MAX < total_votes then Inl ArithmeticError
                  else if SUI_MIN_ARBITERS \<le> total_votes then resolve_dispute_internal now cfg e1 cs
                  else Inr (e1, cs))
      else Inl (Abort EDisputeNotActive))"

definition refund_to_client ::
  "address \<Rightarrow> nat \<Rightarrow> SuiEscrow \<Rightarrow> (address \<Rightarrow> nat) \<Rightarrow> sui_error + (SuiEscrow \<times> (address \<Rightarrow> nat))" where
  "refund_to_client sender now escrow cs =
     (if sender = se_client escrow then
        if se_status escrow = ESCROW_CANCELLED \<or> se_status escrow = ESCROW_REFUNDED then
          let remaining = se_balance escrow in
          if 0 < remaining then
            Inr (escrow\<lparr>se_balance := se_balance escrow - remaining, se_updated_at := now\<rparr>,
                 public_transfer remaining (se_client escrow) cs)
          else Inr (escrow, cs)
        else Inl (Abort EEscrowNotActive)
      else Inl (Abort ENotClient))"

definition register_arbiter :: "address \<Rightarrow> address \<Rightarrow> PlatformConfig \<Rightarrow> sui_error + PlatformConfig" where
  "register_arbiter sender arbiter cfg =
     (if sender = pc_admin cfg then
        if pc_arbiter_registry cfg arbiter = None then
          Inr (cfg\<lparr>pc_arbiter_registry := (pc_arbiter_registry cfg)(arbiter :=
                       Some \<lparr>reputation = 100, cases_resolved = 0, is_active = True\<rparr>)\<rparr>)
        else Inl TableKeyExists
      else Inl (Abort ENotArbiter))"

definition update_fee :: "address \<Rightarrow> nat \<Rightarrow> PlatformConfig \<Rightarrow> sui_error + PlatformConfig" where
  "update_fee sender new_fee_bps cfg =
     (if sender = pc_admin cfg then Inr (cfg\<lparr>pc_fee_bps := new_fee_bps\<rparr>)
      else Inl (Abort ENotArbiter))"

definition update_treasury :: "address \<Rightarrow> address \<Rightarrow> PlatformConfig \<Rightarrow> sui_error + PlatformConfig" where
  "update_treasury sender new_treasury cfg =
     (if sender = pc_admin cfg then Inr (cfg\<lparr>pc_treasury := new_treasury\<rparr>)
      else Inl (Abort ENotArbiter))"

subsection \<open>Transactions on the Sui world\<close>

datatype sui_call =
    Create_escrow address string string "string list" "nat list" "nat list" string string nat
  | Submit_milestone nat nat string
  | Approve_milestone nat nat
  | Release_milestone nat nat
  | Initiate_dispute nat nat string
  | Vote_dispute nat bool
  | Refund_to_client nat
  | Register_arbiter address
  | Update_fee nat
  | Update_treasury address

definition on_escrow ::
  "nat \<Rightarrow> (SuiEscrow \<Rightarrow> sui_error + SuiEscrow) \<Rightarrow> sui_world \<Rightarrow> sui_error + sui_world" where
  "on_escrow oid f w =
     (case escrow_objects w oid of
        None \<Rightarrow> Inl NoSuchObject
      | Some escrow \<Rightarrow>
          (case f escrow of
             Inl e \<Rightarrow> Inl e
           | Inr escrow1 \<Rightarrow> Inr (w\<lparr>escrow_objects := (escrow_objects w)(oid := Some escrow1)\<rparr>)))"

definition on_escrow_coins ::
  "nat \<Rightarrow> (SuiEscrow \<Rightarrow> (address \<Rightarrow> nat) \<Rightarrow> sui_error + (SuiEscrow \<times> (address \<Rightarrow> nat)))
     \<Rightarrow> sui_world \<Rightarrow> sui_error + sui_world" where
  "on_escrow_coins oid f w =
     (case escrow_objects w oid of
        None \<Rightarrow> Inl NoSuchObject
      | Some escrow \<Rightarrow>
          (case f escrow (coins w) of
             Inl e \<Rightarrow> Inl e
           | Inr (escrow1, cs1) \<Rightarrow>
               Inr (w\<lparr>escrow_objects := (escrow_objects w)(oid := Some escrow1), coins := cs1\<rparr>)))"

definition on_config ::
  "(PlatformConfig \<Rightarrow> sui_error + PlatformConfig) \<Rightarrow> sui_world \<Rightarrow> sui_error + sui_world" where
  "on_config f w = (case f (config w) of Inl e \<Rightarrow> Inl e | Inr cfg \<Rightarrow> Inr (w\<lparr>config := cfg\<rparr>))"

fun sui_exec :: "address \<Rightarrow> nat \<Rightarrow> sui_call \<Rightarrow> sui_world \<Rightarrow> sui_error + sui_world" where
  "sui_exec sender now (Create_escrow fr ti de ds amts dls sc sh payment) w =
     create_escrow sender now fr ti de ds amts dls sc sh payment w"
| "sui_exec sender now (Submit_milestone oid mid note) w =
     on_escrow oid (submit_milestone sender now mid note) w"
| "sui_exec sender now (Approve_milestone oid mid) w =
     on_escrow oid (approve_milestone sender now mid) w"
| "sui_exec sender now (Release_milestone oid mid) w =
     on_escrow_coins oid (release_milestone sender now mid (config w)) w"
| "sui_exec sender now (Initiate_dispute oid mid reason) w =
     on_escrow oid (initiate_dispute sender now mid reason) w"
| "sui_exec sender now (Vote_dispute oid v) w =
     on_escrow_coins oid (vote_dispute sender now v (config w)) w"
| "sui_exec sender now (Refund_to_client oid) w =
     on_escrow_coins oid (refund_to_client sender now) w"
| "sui_exec sender now (Register_arbiter a) w = on_config (register_arbiter sender a) w"
| "sui_exec sender now (Update_fee f) w = on_config (update_fee sender f) w"
| "sui_exec sender now (Update_treasury t) w = on_config (update_treasury sender t) w"

text \<open>A list of transactions (sender, time, call); a transaction that aborts changes nothing.\<close>

fun sui_run :: "(address \<times> nat \<times> sui_call) list \<Rightarrow> sui_world \<Rightarrow> sui_world" where
  "sui_run [] w = w"
| "sui_run ((sender, now, c) # txs) w =
     sui_run txs (case sui_exec sender now c w of Inl e \<Rightarrow> w | Inr w1 \<Rightarrow> w1)"

section \<open>The mirror database and the indexers\<close>

text \<open>
  The mirror is the SQLite database of the backend. Of each table the columns that the
  indexers read or write are kept; a table is the list of its rows in the order a query
  returns them. \<open>findFirst\<close> returns the first row that satisfies the condition (\<open>find\<close>),
  \<open>db.update(t).set(v).where(c)\<close> rewrites every row that satisfies \<open>c\<close>. A nullable column
  is an \<open>option\<close>, and \<open>eq(column, x)\<close> never holds of a null column. \<open>new Date()\<close> is the
  time passed to the handler. The notifications a handler emits do not touch the mirror
  and are left out.
\<close>

record escrow_row =
  er_id :: string
  er_onChainId :: "string option"
  er_chain :: string
  er_txHash :: "string option"
  er_status :: string
  er_updatedAt :: "nat option"

record milestone_row =
  mr_id :: string
  mr_escrowId :: string
  mr_onChainId :: "nat option"
  mr_status :: string
  mr_submissionNote :: "string option"
  mr_submittedAt :: "nat option"
  mr_approvedAt :: "nat option"
  mr_releasedAt :: "nat option"
  mr_releaseTxHash :: "string option"

record bridge_row =
  br_id :: string
  br_transferId :: string
  br_status :: string
  br_destinationTxHash :: "string option"
  br_completedAt :: "nat option"

record mirror =
  escrows_tbl :: "escrow_row list"
  milestones_tbl :: "milestone_row list"
  bridgeTransfers_tbl :: "bridge_row list"

definition update_where :: "('a \<Rightarrow> bool) \<Rightarrow> ('a \<Rightarrow> 'a) \<Rightarrow> 'a list \<Rightarrow> 'a list" where
  "update_where c f rows = map (\<lambda>r. if c r then f r else r) rows"

text \<open>\<open>escrowId.toString()\<close> of a bigint: its decimal digits.\<close>

definition digit :: "nat \<Rightarrow> char" where
  "digit d = ''0123456789'' ! d"

function toString :: "nat \<Rightarrow> string" where
  "toString n = (if n < 10 then [digit n] else toString (n div 10) @ [digit (n mod 10)])"
  by pat_completeness auto
termination
  by (relation "measure id") auto

declare toString.simps [simp del]

subsection \<open>The EVM indexer (\<open>indexers/evm.ts\<close>)\<close>

text \<open>
  A log is its decoded arguments and its transaction hash. \<open>Number(milestoneId)\<close> is the
  milestone index itself (the conversion is exact below \<open>2^53\<close>).
\<close>

datatype evm_event =
    Evm_EscrowCreated nat string
  | Evm_MilestoneSubmitted nat nat string
  | Evm_MilestoneApproved nat nat
  | Evm_MilestoneReleased nat nat nat string
  | Evm_BridgeInitiated string
  | Evm_BridgeExecuted string

text \<open>
  The values of \<open>.set({...})\<close>. A key whose value is \<open>undefined\<close> is left out of the
  \<open>UPDATE\<close>, so its column keeps what it held: this is the case \<open>None\<close> of the submission
  note, which the Sui handler reads from the event (the EVM handler always has the
  decoded string).
\<close>

definition set_submitted :: "string option \<Rightarrow> nat \<Rightarrow> milestone_row \<Rightarrow> milestone_row" where
  "set_submitted note now m =
     m\<lparr>mr_status := ''submitted'',
       mr_submissionNote := (case note of None \<Rightarrow> mr_submissionNote m | Some n \<Rightarrow> Some n),
       mr_submittedAt := Some now\<rparr>"

definition set_approved :: "nat \<Rightarrow> milestone_row \<Rightarrow> milestone_row" where
  "set_approved now m = m\<lparr>mr_status := ''approved'', mr_approvedAt := Some now\<rparr>"

definition set_released :: "string \<Rightarrow> nat \<Rightarrow> milestone_row \<Rightarrow> milestone_row" where
  "set_released txHash now m =
     m\<lparr>mr_status := ''released'', mr_releasedAt := Some now, mr_releaseTxHash := Some txHash\<rparr>"

definition set_funded :: "string option \<Rightarrow> nat \<Rightarrow> escrow_row \<Rightarrow> escrow_row" where
  "set_funded onChainId now e =
     e\<lparr>er_onChainId := onChainId, er_status := ''active'', er_updatedAt := Some now\<rparr>"

definition set_completed :: "nat \<Rightarrow> bridge_row \<Rightarrow> bridge_row" where
  "set_completed now b = b\<lparr>br_status := ''completed'', br_completedAt := Some now\<rparr>"

definition evm_handleEscrowCreated :: "nat \<Rightarrow> nat \<Rightarrow> string \<Rightarrow> mirror \<Rightarrow> mirror" where
  "evm_handleEscrowCreated now escrowId transactionHash db =
     (case find (\<lambda>e. er_txHash e = Some transactionHash) (escrows_tbl db) of
        None \<Rightarrow> db
      | Some existing \<Rightarrow>
          db\<lparr>escrows_tbl := update_where (\<lambda>e. er_id e = er_id existing)
                                (set_funded (Some (toString escrowId)) now) (escrows_tbl db)\<rparr>)"

definition evm_handleMilestoneSubmitted :: "nat \<Rightarrow> nat \<Rightarrow> nat \<Rightarrow> string \<Rightarrow> mirror \<Rightarrow> mirror" where
  "evm_handleMilestoneSubmitted now escrowId milestoneId submissionNote db =
     (case find (\<lambda>e. er_onChainId e = Some (toString escrowId)) (escrows_tbl db) of
        None \<Rightarrow> db
      | Some escrow \<Rightarrow>
          (case find (\<lambda>m. mr_onChainId m = Some milestoneId) (milestones_tbl db) of
             None \<Rightarrow> db
           | Some milestone \<Rightarrow>
               db\<lparr>milestones_tbl := update_where (\<lambda>m. mr_id m = mr_id milestone)
                                        (set_submitted (Some submissionNote) now) (milestones_tbl db)\<rparr>))"

definition evm_handleMilestoneApproved :: "nat \<Rightarrow> nat \<Rightarrow> nat \<Rightarrow> mirror \<Rightarrow> mirror" where
  "evm_handleMilestoneApproved now escrowId milestoneId db =
     (case find (\<lambda>e. er_onChainId e = Some (toString escrowId)) (escrows_tbl db) of
        None \<Rightarrow> db
      | Some escrow \<Rightarrow>
          (case find (\<lambda>m. mr_onChainId m = Some milestoneId) (milestones_tbl db) of
             None \<Rightarrow> db
           | Some milestone \<Rightarrow>
               db\<lparr>milestones_tbl := update_where (\<lambda>m. mr_id m = mr_id milestone)
                                        (set_approved now) (milestones_tbl db)\<rparr>))"

definition evm_handleMilestoneReleased :: "nat \<Rightarrow> nat \<Rightarrow> nat \<Rightarrow> string \<Rightarrow> mirror \<Rightarrow> mirror" where
  "evm_handleMilestoneReleased now escrowId milestoneId transactionHash db =
     (case find (\<lambda>e. er_onChainId e = Some (toString escrowId)) (escrows_tbl db) of
        None \<Rightarrow> db
      | Some escrow \<Rightarrow>
          (case find (\<lambda>m. mr_onChainId m = Some milestoneId) (milestones_tbl db) of
             None \<Rightarrow> db
           | Some milestone \<Rightarrow>
               db\<lparr>milestones_tbl := update_where (\<lambda>m. mr_id m = mr_id milestone)
                                        (set_released transactionHash now) (milestones_tbl db)\<rparr>))"

definition evm_handleBridgeExecuted :: "nat \<Rightarrow> string \<Rightarrow> mirror \<Rightarrow> mirror" where
  "evm_handleBridgeExecuted now transferId db =
     db\<lparr>bridgeTransfers_tbl := update_where (\<lambda>b. br_transferId b = transferId)
                                   (set_completed now) (bridgeTransfers_tbl db)\<rparr>"

fun evm_handle :: "nat \<Rightarrow> evm_event \<Rightarrow> mirror \<Rightarrow> mirror" where
  "evm_handle now (Evm_EscrowCreated escrowId txHash) db = evm_handleEscrowCreated now escrowId txHash db"
| "evm_handle now (Evm_MilestoneSubmitted escrowId milestoneId note) db =
     evm_handleMilestoneSubmitted now escrowId milestoneId note db"
| "evm_handle now (Evm_MilestoneApproved escrowId milestoneId) db =
     evm_handleMilestoneApproved now escrowId milestoneId db"
| "evm_handle now (Evm_MilestoneReleased escrowId milestoneId amount txHash) db =
     evm_handleMilestoneReleased now escrowId milestoneId txHash db"
| "evm_handle now (Evm_BridgeInitiated transferId) db = db"
| "evm_handle now (Evm_BridgeExecuted transferId) db = evm_handleBridgeExecuted now transferId db"

subsection \<open>The Sui indexer (\<open>indexers/sui.ts\<close>)\<close>

text \<open>
  An event is the fields its handler reads from \<open>parsedJson\<close>, and the transaction digest.
  \<open>Number(data.milestone_index)\<close> is \<open>None\<close> when it is not a number (\<open>NaN\<close>, bound as a null
  parameter, equal to no column). \<open>data.submission_note\<close> is \<open>None\<close> when the field is absent.
\<close>

datatype sui_event =
    Sui_EscrowCreated string string
  | Sui_MilestoneSubmitted string "nat option" "string option"
  | Sui_MilestoneApproved string "nat option"
  | Sui_MilestoneReleased string "nat option" string
  | Sui_DisputeInitiated string
  | Sui_DisputeResolved string
  | Sui_BridgeTransferInitiated string
  | Sui_BridgeTransferCompleted string string
  | Sui_Unknown

definition sui_handleEscrowCreated :: "nat \<Rightarrow> string \<Rightarrow> string \<Rightarrow> mirror \<Rightarrow> mirror" where
  "sui_handleEscrowCreated now escrow_id txDigest db =
     (case find (\<lambda>e. er_txHash e = Some txDigest) (escrows_tbl db) of
        None \<Rightarrow> db
      | Some existing \<Rightarrow>
          db\<lparr>escrows_tbl := update_where (\<lambda>e. er_id e = er_id existing)
                                (set_funded (Some escrow_id) now) (escrows_tbl db)\<rparr>)"

definition find_milestone :: "nat option \<Rightarrow> milestone_row list \<Rightarrow> milestone_row option" where
  "find_milestone idx rows =
     (case idx of None \<Rightarrow> None | Some i \<Rightarrow> find (\<lambda>m. mr_onChainId m = Some i) rows)"

definition sui_handleMilestoneSubmitted ::
  "nat \<Rightarrow> string \<Rightarrow> nat option \<Rightarrow> string option \<Rightarrow> mirror \<Rightarrow> mirror" where
  "sui_handleMilestoneSubmitted now escrow_id milestone_index submission_note db =
     (case find (\<lambda>e. er_onChainId e = Some escrow_id) (escrows_tbl db) of
        None \<Rightarrow> db
      | Some escrow \<Rightarrow>
          (case find_milestone milestone_index (milestones_tbl db) of
             None \<Rightarrow> db
           | Some milestone \<Rightarrow>
               db\<lparr>milestones_tbl := update_where (\<lambda>m. mr_id m = mr_id milestone)
                                        (set_submitted submission_note now) (milestones_tbl db)\<rparr>))"

definition sui_handleMilestoneApproved :: "nat \<Rightarrow> string \<Rightarrow> nat option \<Rightarrow> mirror \<Rightarrow> mirror" where
  "sui_handleMilestoneApproved now escrow_id milestone_index db =
     (case find (\<lambda>e. er_onChainId e = Some escrow_id) (escrows_tbl db) of
        None \<Rightarrow> db
      | Some escrow \<Rightarrow>
          (case find_milestone milestone_index (milestones_tbl db) of
             None \<Rightarrow> db
           | Some milestone \<Rightarrow>
               db\<lparr>milestones_tbl := update_where (\<lambda>m. mr_id m = mr_id milestone)
                                        (set_approved now) (milestones_tbl db)\<rparr>))"

definition sui_handleMilestoneReleased ::
  "nat \<Rightarrow> string \<Rightarrow> nat option \<Rightarrow> string \<Rightarrow> mirror \<Rightarrow> mirror" where
  "sui_handleMilestoneReleased now escrow_id milestone_index txDigest db =
     (case find (\<lambda>e. er_onChainId e = Some escrow_id) (escrows_tbl db) of
        None \<Rightarrow> db
      | Some escrow \<Rightarrow>
          (case find_milestone milestone_index (milestones_tbl db) of
             None \<Rightarrow> db
           | Some milestone \<Rightarrow>
               db\<lparr>milestones_tbl := update_where (\<lambda>m. mr_id m = mr_id milestone)
                                        (set_released txDigest now) (milestones_tbl db)\<rparr>))"

definition set_escrow_status :: "string \<Rightarrow> nat \<Rightarrow> escrow_row \<Rightarrow> escrow_row" where
  "set_escrow_status st now e = e\<lparr>er_status := st, er_updatedAt := Some now\<rparr>"

definition sui_handleDisputeInitiated :: "nat \<Rightarrow> string \<Rightarrow> mirror \<Rightarrow> mirror" where
  "sui_handleDisputeInitiated now escrow_id db =
     (case find (\<lambda>e. er_onChainId e = Some escrow_id) (escrows_tbl db) of
        None \<Rightarrow> db
      | Some escrow \<Rightarrow>
          db\<lparr>escrows_tbl := update_where (\<lambda>e. er_id e = er_id escrow)
                                (set_escrow_status ''disputed'' now) (escrows_tbl db)\<rparr>)"

definition sui_handleDisputeResolved :: "nat \<Rightarrow> string \<Rightarrow> mirror \<Rightarrow> mirror" where
  "sui_handleDisputeResolved now escrow_id db =
     (case find (\<lambda>e. er_onChainId e = Some escrow_id) (escrows_tbl db) of
        None \<Rightarrow> db
      | Some escrow \<Rightarrow>
          db\<lparr>escrows_tbl := update_where (\<lambda>e. er_id e = er_id escrow)
                                (set_escrow_status ''active'' now) (escrows_tbl db)\<rparr>)"

definition set_bridge_completed :: "string \<Rightarrow> nat \<Rightarrow> bridge_row \<Rightarrow> bridge_row" where
  "set_bridge_completed txDigest now b =
     b\<lparr>br_status := ''completed'', br_destinationTxHash := Some txDigest, br_completedAt := Some now\<rparr>"

definition sui_handleBridgeCompleted :: "nat \<Rightarrow> string \<Rightarrow> string \<Rightarrow> mirror \<Rightarrow> mirror" where
  "sui_handleBridgeCompleted now transfer_id txDigest db =
     db\<lparr>bridgeTransfers_tbl := update_where (\<lambda>b. br_transferId b = transfer_id)
                                   (set_bridge_completed txDigest now) (bridgeTransfers_tbl db)\<rparr>"

fun sui_handleEvent :: "nat \<Rightarrow> sui_event \<Rightarrow> mirror \<Rightarrow> mirror" where
  "sui_handleEvent now (Sui_EscrowCreated escrow_id txDigest) db =
     sui_handleEscrowCreated now escrow_id txDigest db"
| "sui_handleEvent now (Sui_MilestoneSubmitted escrow_id idx note) db =
     sui_handleMilestoneSubmitted now escrow_id idx note db"
| "sui_handleEvent now (Sui_MilestoneApproved escrow_id idx) db =
     sui_handleMilestoneApproved now escrow_id idx db"
| "sui_handleEvent now (Sui_MilestoneReleased escrow_id idx txDigest) db =
     sui_handleMilestoneReleased now escrow_id idx txDigest db"
| "sui_handleEvent now (Sui_DisputeInitiated escrow_id) db = sui_handleDisputeInitiated now escrow_id db"
| "sui_handleEvent now (Sui_DisputeResolved escrow_id) db = sui_handleDisputeResolved now escrow_id db"
| "sui_handleEvent now (Sui_BridgeTransferInitiated transfer_id) db = db"
| "sui_handleEvent now (Sui_BridgeTransferCompleted transfer_id txDigest) db =
     sui_handleBridgeCompleted now transfer_id txDigest db"
| "sui_handleEvent now Sui_Unknown db = db"

text \<open>
  The milestone events that \<open>escrow.move\<close> emits, with the fields of their structs:
  \<open>MilestoneSubmitted {escrow_id, milestone_id, freelancer, submission_note}\<close>,
  \<open>MilestoneApproved {escrow_id, milestone_id, client}\<close> and
  \<open>MilestoneReleased {escrow_id, milestone_id, freelancer, amount}\<close>. \<open>parsedJson\<close> carries
  these field names. The handlers read \<open>data.milestone_index\<close>, a field that none of the
  three has, so what they read is \<open>undefined\<close> and \<open>Number(undefined)\<close> is \<open>NaN\<close>.
  \<open>sui_event_of\<close> is what a handler reads from such an event and its transaction digest.
\<close>

datatype move_event =
    Move_MilestoneSubmitted string nat address string
  | Move_MilestoneApproved string nat address
  | Move_MilestoneReleased string nat address nat

fun sui_event_of :: "move_event \<Rightarrow> string \<Rightarrow> sui_event" where
  "sui_event_of (Move_MilestoneSubmitted escrow_id milestone_id freelancer submission_note) txDigest =
     Sui_MilestoneSubmitted escrow_id None (Some submission_note)"
| "sui_event_of (Move_MilestoneApproved escrow_id milestone_id client) txDigest =
     Sui_MilestoneApproved escrow_id None"
| "sui_event_of (Move_MilestoneReleased escrow_id milestone_id freelancer amount) txDigest =
     Sui_MilestoneReleased escrow_id None txDigest"

section \<open>Example worlds\<close>

text \<open>
  EVM: the deployer and owner is address 1, the treasury 2, the client 5 (holding 100000 wei),
  the freelancer 6, the arbiters 11, 12, 13 and the relayers 21, 22, 23. The escrow
  contract is at address 100 and the bridge at 200. Every address accepts ether, and the
  hash of a transfer is taken to be its nonce.
\<close>

definition env_ex :: evm_env where
  "env_ex = \<lparr>escrowAddr = 100, bridgeAddr = 200, accepts = (\<lambda>_. True),
             keccak256 = (\<lambda>r a t n. n)\<rparr>"

definition evm_genesis :: evm_world where
  "evm_genesis =
     evm_run env_ex
       [(1, 1000, RegisterArbiter 11), (1, 1000, RegisterArbiter 12), (1, 1000, RegisterArbiter 13)]
       \<lparr>escrowC = escrow_constructor 1 2 200,
        bridgeC = projr (bridge_constructor 1 [21, 22, 23]),
        eth = (\<lambda>a. if a = 5 then 100000 else 0)\<rparr>"

text \<open>Scenario A and the first steps of Scenario B: create, submit milestone 0, approve it.\<close>

definition create_A :: "nat \<Rightarrow> evm_call" where
  "create_A val = CreateEscrow val 6 ''Site'' ''Build it'' [''design'', ''code'', ''test'']
                    [3000, 4000, 3000] [2000, 3000, 4000] 0 False"

definition txs_B :: "(address \<times> nat \<times> evm_call) list" where
  "txs_B = [(5, 1001, create_A 10000), (6, 1002, SubmitMilestone 1 0 ''done''),
            (5, 1003, ApproveMilestone 1 0)]"

definition world_B :: evm_world where
  "world_B = evm_run env_ex txs_B evm_genesis"

text \<open>The same escrow created as a cross-chain escrow towards the Sui recipient 77.\<close>

definition txs_B_cross :: "(address \<times> nat \<times> evm_call) list" where
  "txs_B_cross =
     [(5, 1001, CreateEscrow 10000 6 ''Site'' ''Build it'' [''design'', ''code'', ''test'']
                  [3000, 4000, 3000] [2000, 3000, 4000] 77 True),
      (6, 1002, SubmitMilestone 1 0 ''done''), (5, 1003, ApproveMilestone 1 0)]"

definition world_B_cross :: evm_world where
  "world_B_cross = evm_run env_ex txs_B_cross evm_genesis"

text \<open>
  Sui: the admin is address 1, the treasury 2, the client 5 (owning 100000 MIST), the
  freelancer 6 and the arbiters 11, 12, 13. The first escrow object gets the id 10.
\<close>

definition sui_genesis :: sui_world where
  "sui_genesis =
     sui_run [(1, 1000, Update_treasury 2), (1, 1000, Register_arbiter 11),
              (1, 1000, Register_arbiter 12), (1, 1000, Register_arbiter 13)]
       \<lparr>config = sui_init 1, escrow_objects = (\<lambda>_. None), receipts = [],
        coins = (\<lambda>a. if a = 5 then 100000 else 0), next_uid = 10\<rparr>"

definition sui_create_A :: "nat \<Rightarrow> sui_call" where
  "sui_create_A payment = Create_escrow 6 ''Site'' ''Build it'' [''design'', ''code'', ''test'']
                            [3000, 4000, 3000] [2000, 3000, 4000] ''ethereum'' ''0xabc'' payment"

definition sui_txs_B :: "(address \<times> nat \<times> sui_call) list" where
  "sui_txs_B = [(5, 1001, sui_create_A 10000), (6, 1002, Submit_milestone 10 0 ''done''),
                (5, 1003, Approve_milestone 10 0)]"

definition sui_world_B :: sui_world where
  "sui_world_B = sui_run sui_txs_B sui_genesis"

text \<open>Scenario D: the client starts a bridge transfer of 1000 (its id is 1); two relayers confirm.\<close>

definition txs_D :: "(address \<times> nat \<times> evm_call) list" where
  "txs_D = [(5, 5000, InitiateBridge 1000 77 1000)]"

definition world_D :: evm_world where
  "world_D = evm_run env_ex txs_D evm_genesis"

definition world_D2 :: evm_world where
  "world_D2 = evm_run env_ex [(21, 5001, ConfirmBridge 1), (22, 5002, ConfirmBridge 1)] world_D"

text \<open>
  Mirror databases. \<open>mirror_one\<close> holds one escrow (on-chain id 1) with its milestone 0.
  \<open>mirror_two\<close> holds two escrows (on-chain ids 1 and 2); each has a milestone with index 0,
  the one of the first escrow already approved.
\<close>

definition mirror_one :: mirror where
  "mirror_one =
     \<lparr>escrows_tbl = [\<lparr>er_id = ''esc-A'', er_onChainId = Some ''1'', er_chain = ''evm'',
                       er_txHash = Some ''0xa'', er_status = ''active'', er_updatedAt = None\<rparr>],
      milestones_tbl = [\<lparr>mr_id = ''mA0'', mr_escrowId = ''esc-A'', mr_onChainId = Some 0,
                          mr_status = ''pending'', mr_submissionNote = None, mr_submittedAt = None,
                          mr_approvedAt = None, mr_releasedAt = None, mr_releaseTxHash = None\<rparr>],
      bridgeTransfers_tbl = []\<rparr>"

definition mirror_two :: mirror where
  "mirror_two =
     \<lparr>escrows_tbl = [\<lparr>er_id = ''esc-A'', er_onChainId = Some ''1'', er_chain = ''evm'',
                       er_txHash = Some ''0xa'', er_status = ''active'', er_updatedAt = None\<rparr>,
                     \<lparr>er_id = ''esc-B'', er_onChainId = Some ''2'', er_chain = ''evm'',
                       er_txHash = Some ''0xb'', er_status = ''active'', er_updatedAt = None\<rparr>],
      milestones_tbl = [\<lparr>mr_id = ''mA0'', mr_escrowId = ''esc-A'', mr_onChainId = Some 0,
                          mr_status = ''approved'', mr_submissionNote = Some ''first'',
                          mr_submittedAt = Some 5, mr_approvedAt = Some 10, mr_releasedAt = None,
                          mr_releaseTxHash = None\<rparr>,
                        \<lparr>mr_id = ''mB0'', mr_escrowId = ''esc-B'', mr_onChainId = Some 0,
                          mr_status = ''pending'', mr_submissionNote = None, mr_submittedAt = None,
                          mr_approvedAt = None, mr_releasedAt = None, mr_releaseTxHash = None\<rparr>],
      bridgeTransfers_tbl = []\<rparr>"

text \<open>
  Scenario C on the EVM chain: the freelancer opens a dispute on milestone 1 of the escrow
  [3000, 4000, 3000]; the arbiters 11 and 12 vote for the client (\<open>world_C_open\<close>), then
  arbiter 13 votes for the freelancer (\<open>world_C\<close>).
\<close>

definition txs_C_open :: "(address \<times> nat \<times> evm_call) list" where
  "txs_C_open = [(5, 1001, create_A 10000), (6, 1002, InitiateDispute 1 1 ''late''),
                 (11, 1003, VoteDispute 1 True), (12, 1004, VoteDispute 1 True)]"

definition world_C_open :: evm_world where
  "world_C_open = evm_run env_ex txs_C_open evm_genesis"

definition world_C :: evm_world where
  "world_C = evm_run env_ex [(13, 1005, VoteDispute 1 False)] world_C_open"

text \<open>The same dispute with the arbiters 11 and 12 voting for the freelancer.\<close>

definition txs_C_free :: "(address \<times> nat \<times> evm_call) list" where
  "txs_C_free = [(5, 1001, create_A 10000), (6, 1002, InitiateDispute 1 1 ''unpaid''),
                 (11, 1003, VoteDispute 1 False), (12, 1004, VoteDispute 1 False)]"

definition world_C_free :: evm_world where
  "world_C_free = evm_run env_ex txs_C_free evm_genesis"

text \<open>An escrow with the single milestone [3000], disputed and resolved for the client.\<close>

definition txs_one :: "(address \<times> nat \<times> evm_call) list" where
  "txs_one = [(5, 1001, CreateEscrow 3000 6 ''Logo'' ''Draw it'' [''logo''] [3000] [2000] 0 False),
              (5, 1002, InitiateDispute 1 0 ''late''), (11, 1003, VoteDispute 1 True),
              (12, 1004, VoteDispute 1 True), (13, 1005, VoteDispute 1 True)]"

definition world_one :: evm_world where
  "world_one = evm_run env_ex txs_one evm_genesis"

text \<open>
  Milestone 0 of the escrow [3000, 4000, 3000] is released (Scenario B), then the freelancer
  opens a dispute on that same milestone and the three arbiters vote for the freelancer.
\<close>

definition txs_twice :: "(address \<times> nat \<times> evm_call) list" where
  "txs_twice = txs_B @ [(5, 1004, ReleaseMilestone 1 0), (6, 1005, InitiateDispute 1 0 ''again''),
                        (11, 1006, VoteDispute 1 False), (12, 1007, VoteDispute 1 False),
                        (13, 1008, VoteDispute 1 False)]"

text \<open>The same scenarios on Sui; the escrow object has the id 10.\<close>

definition sui_txs_C_open :: "(address \<times> nat \<times> sui_call) list" where
  "sui_txs_C_open = [(5, 1001, sui_create_A 10000), (6, 1002, Initiate_dispute 10 1 ''late''),
                     (11, 1003, Vote_dispute 10 True), (12, 1004, Vote_dispute 10 True)]"

definition sui_world_C_open :: sui_world where
  "sui_world_C_open = sui_run sui_txs_C_open sui_genesis"

definition sui_world_C :: sui_world where
  "sui_world_C = sui_run [(13, 1005, Vote_dispute 10 False)] sui_world_C_open"

definition sui_txs_C_free :: "(address \<times> nat \<times> sui_call) list" where
  "sui_txs_C_free = [(5, 1001, sui_create_A 10000), (6, 1002, Initiate_dispute 10 1 ''unpaid''),
                     (11, 1003, Vote_dispute 10 False), (12, 1004, Vote_dispute 10 False)]"

definition sui_world_C_free :: sui_world where
  "sui_world_C_free = sui_run sui_txs_C_free sui_genesis"

definition sui_txs_one :: "(address \<times> nat \<times> sui_call) list" where
  "sui_txs_one = [(5, 1001, Create_escrow 6 ''Logo'' ''Draw it'' [''logo''] [3000] [2000]
                               ''ethereum'' ''0xabc'' 3000),
                  (5, 1002, Initiate_dispute 10 0 ''late''), (11, 1003, Vote_dispute 10 True),
                  (12, 1004, Vote_dispute 10 True), (13, 1005, Vote_dispute 10 True)]"

definition sui_world_one :: sui_world where
  "sui_world_one = sui_run sui_txs_one sui_genesis"

definition sui_txs_twice :: "(address \<times> nat \<times> sui_call) list" where
  "sui_txs_twice = sui_txs_B @ [(5, 1004, Release_milestone 10 0),
                                (6, 1005, Initiate_dispute 10 0 ''again''),
                                (11, 1006, Vote_dispute 10 False), (12, 1007, Vote_dispute 10 False),
                                (13, 1008, Vote_dispute 10 False)]"

text \<open>
  An escrow [3000, 1000] funded with 4000 on Sui. Milestone 0 is released, which leaves a
  balance of 1000; then a dispute on milestone 0 gets two votes for the freelancer.
\<close>

definition sui_txs_short :: "(address \<times> nat \<times> sui_call) list" where
  "sui_txs_short = [(5, 1001, Create_escrow 6 ''Site'' ''Build it'' [''design'', ''code'']
                                 [3000, 1000] [2000, 3000] ''ethereum'' ''0xabc'' 4000),
                    (6, 1002, Submit_milestone 10 0 ''done''), (5, 1003, Approve_milestone 10 0),
                    (5, 1004, Release_milestone 10 0), (6, 1005, Initiate_dispute 10 0 ''again''),
                    (11, 1006, Vote_dispute 10 False), (12, 1007, Vote_dispute 10 False)]"

definition sui_world_short :: sui_world where
  "sui_world_short = sui_run sui_txs_short sui_genesis"

text \<open>
  The bridge after \<open>initiateBridge\<close> has recorded one new transfer: the nonce is one higher,
  the record is stored under the hash of recipient, amount, time and nonce.
\<close>

definition new_transfer :: "evm_env \<Rightarrow> bridge_storage \<Rightarrow> bridge_storage \<Rightarrow> bool" where
  "new_transfer env b b' =
     (\<exists>r a t. b' = b\<lparr>bridgeNonce := bridgeNonce b + 1,
         transfers := (transfers b)(keccak256 env r a t (bridgeNonce b + 1) :=
            \<lparr>bt_suiRecipient = r, bt_amount = a, bt_initiatedAt = t, bt_confirmationCount = 0,
             bt_executed = False, bt_refunded = False\<rparr>),
         totalBridged := totalBridged b + a\<rparr>)"

section \<open>Evaluation and frame lemmas\<close>

named_theorems evm_defs
named_theorems sui_defs
named_theorems mirror_defs

lemmas [evm_defs] = env_ex_def evm_genesis_def create_A_def txs_B_def world_B_def txs_B_cross_def
  world_B_cross_def escrow_constructor_def bridge_constructor_def createEscrow_def
  submitMilestone_def approveMilestone_def releaseMilestone_def initiateDispute_def
  voteDispute_def resolveDispute_def refundToClient_def registerArbiter_def pay_in_def
  send_value_def move_eth_def pay_out_def upd_escrow_def upd_milestone_def upd_dispute_def
  checkEscrowCompletion_def terminal_def new_milestones_def initiateBridge_def confirmBridge_def
  refundBridge_def executeBridge_def UINT256_MAX_def PLATFORM_FEE_BPS_def MIN_ARBITERS_def
  MIN_CONFIRMATIONS_def BRIDGE_TIMEOUT_def Let_def

lemmas [sui_defs] = sui_genesis_def sui_create_A_def sui_txs_B_def sui_world_B_def sui_init_def
  create_escrow_def submit_milestone_def approve_milestone_def release_milestone_def
  initiate_dispute_def vote_dispute_def resolve_dispute_internal_def refund_to_client_def
  register_arbiter_def update_fee_def update_treasury_def on_escrow_def on_escrow_coins_def
  on_config_def public_transfer_def sui_upd_milestone_def sui_terminal_def
  check_escrow_completion_def sui_new_milestones_def U64_MAX_def Let_def

lemmas [evm_defs] = txs_D_def world_D_def world_D2_def

lemmas [mirror_defs] = mirror_one_def mirror_two_def evm_handleEscrowCreated_def
  evm_handleMilestoneSubmitted_def evm_handleMilestoneApproved_def evm_handleMilestoneReleased_def
  evm_handleBridgeExecuted_def sui_handleEscrowCreated_def sui_handleMilestoneSubmitted_def
  sui_handleMilestoneApproved_def sui_handleMilestoneReleased_def sui_handleDisputeInitiated_def
  sui_handleDisputeResolved_def sui_handleBridgeCompleted_def find_milestone_def update_where_def
  set_submitted_def set_approved_def set_released_def set_funded_def set_completed_def
  set_escrow_status_def set_bridge_completed_def digit_def

lemma toString_small: "n < 10 \<Longrightarrow> toString n = [digit n]"
  by (simp add: toString.simps)

lemmas [mirror_defs] = toString_small

lemmas [evm_defs] = txs_C_open_def world_C_open_def world_C_def txs_C_free_def world_C_free_def
  txs_one_def world_one_def txs_twice_def

lemmas [sui_defs] = sui_txs_C_open_def sui_world_C_open_def sui_world_C_def sui_txs_C_free_def
  sui_world_C_free_def sui_txs_one_def sui_world_one_def sui_txs_twice_def sui_txs_short_def
  sui_world_short_def

lemma move_eth_zero [simp]: "move_eth src dst 0 bal = bal"
  by (rule ext) (simp add: move_eth_def Let_def)

lemma public_transfer_zero [simp]: "public_transfer 0 a cs = cs"
  by (rule ext) (simp add: public_transfer_def)



lemma upd_frame [simp]:
  "escrows (upd_milestone eid mid f s) = escrows s"
  "escrowMilestones (upd_escrow eid g s) = escrowMilestones s"
  "escrows (upd_escrow eid g s) eid = g (escrows s eid)"
  "escrowMilestones (upd_milestone eid mid f s) eid
     = (escrowMilestones s eid)[mid := f (escrowMilestones s eid ! mid)]"
  "treasury (upd_milestone eid mid f s) = treasury s"
  "treasury (upd_escrow eid g s) = treasury s"
  "bridge (upd_milestone eid mid f s) = bridge s"
  "bridge (upd_escrow eid g s) = bridge s"
  "feeBps (upd_milestone eid mid f s) = feeBps s"
  "feeBps (upd_escrow eid g s) = feeBps s"
  "disputes (upd_milestone eid mid f s) = disputes s"
  "disputes (upd_escrow eid g s) = disputes s"
  by (simp_all add: upd_milestone_def upd_escrow_def)

lemma upd_dispute_frame [simp]:
  "escrows (upd_dispute eid h s) = escrows s"
  "escrowMilestones (upd_dispute eid h s) = escrowMilestones s"
  "disputes (upd_dispute eid h s) eid = h (disputes s eid)"
  "treasury (upd_dispute eid h s) = treasury s"
  "bridge (upd_dispute eid h s) = bridge s"
  "feeBps (upd_dispute eid h s) = feeBps s"
  by (simp_all add: upd_dispute_def)

lemma check_frame [simp]:
  "escrowMilestones (checkEscrowCompletion eid s) = escrowMilestones s"
  "e_balance (escrows (checkEscrowCompletion eid s) i) = e_balance (escrows s i)"
  "disputes (checkEscrowCompletion eid s) = disputes s"
  "e_status (escrows (checkEscrowCompletion eid s) eid)
     = (if list_all terminal (escrowMilestones s eid) then Completed else e_status (escrows s eid))"
  by (simp_all add: checkEscrowCompletion_def upd_escrow_def)




subsection \<open>What a transaction leaves unchanged\<close>

lemma send_value_frame:
  "send_value env src dst v w = Some w' \<Longrightarrow> escrowC w' = escrowC w \<and> bridgeC w' = bridgeC w"
  by (auto simp: send_value_def split: if_splits)

lemma pay_in_frame:
  "pay_in sender c v w = Some w' \<Longrightarrow> escrowC w' = escrowC w \<and> bridgeC w' = bridgeC w"
  by (auto simp: pay_in_def split: if_splits)

lemma initiateBridge_effect:
  assumes "initiateBridge env sender val now r a w = Inr w'"
  shows "escrowC w' = escrowC w
    \<and> bridgeC w' = (bridgeC w)\<lparr>bridgeNonce := bridgeNonce (bridgeC w) + 1,
         transfers := (transfers (bridgeC w))(keccak256 env r a now (bridgeNonce (bridgeC w) + 1) :=
            \<lparr>bt_suiRecipient = r, bt_amount = a, bt_initiatedAt = now, bt_confirmationCount = 0,
             bt_executed = False, bt_refunded = False\<rparr>),
         totalBridged := totalBridged (bridgeC w) + a\<rparr>"
  using assms
  by (auto simp: initiateBridge_def Let_def split: option.splits if_splits
        dest!: pay_in_frame send_value_frame)

lemma pay_out_effect:
  assumes "pay_out env now e fa fee w = Inr w'"
  shows "escrowC w' = escrowC w
    \<and> (bridgeC w' = bridgeC w
       \<or> bridgeC w' = (bridgeC w)\<lparr>bridgeNonce := bridgeNonce (bridgeC w) + 1,
            transfers := (transfers (bridgeC w))
              (keccak256 env (e_suiRecipient e) fa now (bridgeNonce (bridgeC w) + 1) :=
                 \<lparr>bt_suiRecipient = e_suiRecipient e, bt_amount = fa, bt_initiatedAt = now,
                  bt_confirmationCount = 0, bt_executed = False, bt_refunded = False\<rparr>),
            totalBridged := totalBridged (bridgeC w) + fa\<rparr>)"
  using assms
  by (auto simp: pay_out_def split: option.splits if_splits sum.splits
        dest!: initiateBridge_effect send_value_frame)

lemma initiateBridge_frame:
  "initiateBridge env sender val now r a w = Inr w' \<Longrightarrow>
   escrowC w' = escrowC w \<and> new_transfer env (bridgeC w) (bridgeC w')"
  unfolding new_transfer_def by (drule initiateBridge_effect) blast

lemma pay_out_frame:
  "pay_out env now e fa fee w = Inr w' \<Longrightarrow>
   escrowC w' = escrowC w \<and> (bridgeC w' = bridgeC w \<or> new_transfer env (bridgeC w) (bridgeC w'))"
  unfolding new_transfer_def by (drule pay_out_effect) blast

lemma createEscrow_frame:
  "createEscrow env sender val now fr ti de ds amts dls sr cc w = Inr (i, w') \<Longrightarrow>
   disputes (escrowC w') = disputes (escrowC w) \<and> bridgeC w' = bridgeC w"
  by (auto simp: createEscrow_def Let_def split: option.splits if_splits sum.splits
        dest!: pay_in_frame send_value_frame)

lemma submitMilestone_frame:
  "submitMilestone sender now eid mid nt w = Inr w' \<Longrightarrow>
   disputes (escrowC w') = disputes (escrowC w) \<and> bridgeC w' = bridgeC w"
  by (auto simp: submitMilestone_def Let_def split: if_splits)

lemma approveMilestone_frame:
  "approveMilestone sender now eid mid w = Inr w' \<Longrightarrow>
   disputes (escrowC w') = disputes (escrowC w) \<and> bridgeC w' = bridgeC w"
  by (auto simp: approveMilestone_def Let_def split: if_splits)

lemma releaseMilestone_frame:
  "releaseMilestone env sender now eid mid w = Inr w' \<Longrightarrow>
   disputes (escrowC w') = disputes (escrowC w)
   \<and> (bridgeC w' = bridgeC w \<or> new_transfer env (bridgeC w) (bridgeC w'))"
  by (auto simp: releaseMilestone_def Let_def split: if_splits sum.splits dest!: pay_out_frame)

lemma initiateDispute_frame:
  "initiateDispute sender now eid mid reason w = Inr w' \<Longrightarrow>
   bridgeC w' = bridgeC w \<and> d_initiatedAt (disputes (escrowC w) eid) = 0
   \<and> (\<forall>k. k \<noteq> eid \<longrightarrow> disputes (escrowC w') k = disputes (escrowC w) k)"
  by (auto simp: initiateDispute_def Let_def upd_escrow_def upd_milestone_def split: if_splits)

lemma resolveDispute_frame:
  "resolveDispute env now eid w = Inr w' \<Longrightarrow>
   (\<forall>k. k \<noteq> eid \<longrightarrow> disputes (escrowC w') k = disputes (escrowC w) k)
   \<and> (bridgeC w' = bridgeC w \<or> new_transfer env (bridgeC w) (bridgeC w'))"
  by (auto simp: resolveDispute_def Let_def upd_dispute_def split: if_splits sum.splits
        dest!: pay_out_frame)

lemma voteDispute_frame:
  "voteDispute env sender now eid v w = Inr w' \<Longrightarrow>
   \<not> d_resolved (disputes (escrowC w) eid)
   \<and> (\<forall>k. k \<noteq> eid \<longrightarrow> disputes (escrowC w') k = disputes (escrowC w) k)
   \<and> (bridgeC w' = bridgeC w \<or> new_transfer env (bridgeC w) (bridgeC w'))"
  by (auto simp: voteDispute_def Let_def upd_dispute_def split: if_splits
        dest!: resolveDispute_frame)

lemma refundToClient_frame:
  "refundToClient env sender now eid w = Inr w' \<Longrightarrow>
   disputes (escrowC w') = disputes (escrowC w) \<and> bridgeC w' = bridgeC w"
  by (auto simp: refundToClient_def Let_def split: if_splits option.splits dest!: send_value_frame)

lemma escrow_admin_frame:
  "registerArbiter sender a w = Inr w' \<Longrightarrow>
     disputes (escrowC w') = disputes (escrowC w) \<and> bridgeC w' = bridgeC w"
  "removeArbiter sender a w = Inr w' \<Longrightarrow>
     disputes (escrowC w') = disputes (escrowC w) \<and> bridgeC w' = bridgeC w"
  "updateFee sender f w = Inr w' \<Longrightarrow>
     disputes (escrowC w') = disputes (escrowC w) \<and> bridgeC w' = bridgeC w"
  "updateTreasury sender a w = Inr w' \<Longrightarrow>
     disputes (escrowC w') = disputes (escrowC w) \<and> bridgeC w' = bridgeC w"
  "updateBridge sender a w = Inr w' \<Longrightarrow>
     disputes (escrowC w') = disputes (escrowC w) \<and> bridgeC w' = bridgeC w"
  by (auto simp: registerArbiter_def removeArbiter_def updateFee_def updateTreasury_def
        updateBridge_def Let_def split: if_splits)

lemma confirmBridge_frame:
  "confirmBridge sender tid w = Inr w' \<Longrightarrow>
   escrowC w' = escrowC w \<and> bridgeNonce (bridgeC w') = bridgeNonce (bridgeC w)
   \<and> \<not> bt_executed (transfers (bridgeC w) tid) \<and> \<not> bt_refunded (transfers (bridgeC w) tid)
   \<and> \<not> bt_refunded (transfers (bridgeC w') tid)
   \<and> (\<forall>k. k \<noteq> tid \<longrightarrow> transfers (bridgeC w') k = transfers (bridgeC w) k)"
  by (auto simp: confirmBridge_def executeBridge_def Let_def split: if_splits)

lemma refundBridge_frame:
  "refundBridge env now tid a w = Inr w' \<Longrightarrow>
   escrowC w' = escrowC w \<and> bridgeNonce (bridgeC w') = bridgeNonce (bridgeC w)
   \<and> \<not> bt_executed (transfers (bridgeC w) tid) \<and> \<not> bt_refunded (transfers (bridgeC w) tid)
   \<and> \<not> bt_executed (transfers (bridgeC w') tid)
   \<and> (\<forall>k. k \<noteq> tid \<longrightarrow> transfers (bridgeC w') k = transfers (bridgeC w) k)"
  by (auto simp: refundBridge_def Let_def split: if_splits option.splits dest!: send_value_frame)

lemma bridge_admin_frame:
  "setEscrowContract sender a w = Inr w' \<Longrightarrow> escrowC w' = escrowC w
     \<and> transfers (bridgeC w') = transfers (bridgeC w) \<and> bridgeNonce (bridgeC w') = bridgeNonce (bridgeC w)"
  "addRelayer sender a w = Inr w' \<Longrightarrow> escrowC w' = escrowC w
     \<and> transfers (bridgeC w') = transfers (bridgeC w) \<and> bridgeNonce (bridgeC w') = bridgeNonce (bridgeC w)"
  "removeRelayer sender a w = Inr w' \<Longrightarrow> escrowC w' = escrowC w
     \<and> transfers (bridgeC w') = transfers (bridgeC w) \<and> bridgeNonce (bridgeC w') = bridgeNonce (bridgeC w)"
  "setBridgeFee sender f w = Inr w' \<Longrightarrow> escrowC w' = escrowC w
     \<and> transfers (bridgeC w') = transfers (bridgeC w) \<and> bridgeNonce (bridgeC w') = bridgeNonce (bridgeC w)"
  "withdrawFees env sender a w = Inr w' \<Longrightarrow> escrowC w' = escrowC w
     \<and> transfers (bridgeC w') = transfers (bridgeC w) \<and> bridgeNonce (bridgeC w') = bridgeNonce (bridgeC w)"
  by (auto simp: setEscrowContract_def addRelayer_def removeRelayer_def setBridgeFee_def
        withdrawFees_def Let_def simp del: swap_remove.simps
        split: if_splits option.splits dest!: send_value_frame)


lemma evm_exec_transfer:
  assumes "evm_exec env sender now c w = Inr w'"
  shows "(transfers (bridgeC w') = transfers (bridgeC w)
          \<and> bridgeNonce (bridgeC w') = bridgeNonce (bridgeC w))
       \<or> new_transfer env (bridgeC w) (bridgeC w')
       \<or> (\<exists>tid. bridgeNonce (bridgeC w') = bridgeNonce (bridgeC w)
             \<and> \<not> bt_executed (transfers (bridgeC w) tid) \<and> \<not> bt_refunded (transfers (bridgeC w) tid)
             \<and> (\<not> bt_executed (transfers (bridgeC w') tid) \<or> \<not> bt_refunded (transfers (bridgeC w') tid))
             \<and> (\<forall>k. k \<noteq> tid \<longrightarrow> transfers (bridgeC w') k = transfers (bridgeC w) k))"
proof (cases c)
  case (CreateEscrow val fr ti de ds amts dls sr cc)
  with assms show ?thesis
    by (auto split: sum.splits dest!: createEscrow_frame)
next
  case (ConfirmBridge tid)
  with assms have "confirmBridge sender tid w = Inr w'" by simp
  from confirmBridge_frame [OF this] show ?thesis by blast
next
  case (RefundBridge tid a)
  with assms have "refundBridge env now tid a w = Inr w'" by simp
  from refundBridge_frame [OF this] show ?thesis by blast
qed (use assms in \<open>auto dest!: submitMilestone_frame approveMilestone_frame releaseMilestone_frame
       initiateDispute_frame voteDispute_frame
       refundToClient_frame escrow_admin_frame initiateBridge_frame bridge_admin_frame\<close>)

lemma evm_exec_final:
  assumes ex: "evm_exec env sender now c w = Inr w'"
    and fin: "bt_refunded (transfers (bridgeC w) tid) \<or> bt_executed (transfers (bridgeC w) tid)"
    and fresh: "\<forall>r a t n. bridgeNonce (bridgeC w) < n \<longrightarrow> keccak256 env r a t n \<noteq> tid"
  shows "transfers (bridgeC w') tid = transfers (bridgeC w) tid
         \<and> bridgeNonce (bridgeC w) \<le> bridgeNonce (bridgeC w')"
proof -
  from evm_exec_transfer [OF ex] consider
      (same) "transfers (bridgeC w') = transfers (bridgeC w)"
             "bridgeNonce (bridgeC w') = bridgeNonce (bridgeC w)"
    | (new) "new_transfer env (bridgeC w) (bridgeC w')"
    | (upd) k where "bridgeNonce (bridgeC w') = bridgeNonce (bridgeC w)"
        "\<not> bt_executed (transfers (bridgeC w) k)" "\<not> bt_refunded (transfers (bridgeC w) k)"
        "\<forall>j. j \<noteq> k \<longrightarrow> transfers (bridgeC w') j = transfers (bridgeC w) j"
    by blast
  then show ?thesis
  proof cases
    case same
    then show ?thesis by simp
  next
    case new
    then obtain r a t where b': "bridgeC w' = (bridgeC w)\<lparr>bridgeNonce := bridgeNonce (bridgeC w) + 1,
         transfers := (transfers (bridgeC w))(keccak256 env r a t (bridgeNonce (bridgeC w) + 1) :=
            \<lparr>bt_suiRecipient = r, bt_amount = a, bt_initiatedAt = t, bt_confirmationCount = 0,
             bt_executed = False, bt_refunded = False\<rparr>),
         totalBridged := totalBridged (bridgeC w) + a\<rparr>"
      unfolding new_transfer_def by blast
    have "keccak256 env r a t (bridgeNonce (bridgeC w) + 1) \<noteq> tid"
      using fresh by simp
    then show ?thesis by (simp add: b')
  next
    case upd
    with fin have "tid \<noteq> k" by blast
    with upd show ?thesis by simp
  qed
qed

lemma evm_run_final:
  assumes "bt_refunded (transfers (bridgeC w) tid) \<or> bt_executed (transfers (bridgeC w) tid)"
    and "\<forall>r a t n. bridgeNonce (bridgeC w) < n \<longrightarrow> keccak256 env r a t n \<noteq> tid"
  shows "transfers (bridgeC (evm_run env txs w)) tid = transfers (bridgeC w) tid"
  using assms
proof (induction txs arbitrary: w)
  case Nil
  show ?case by simp
next
  case (Cons tx txs)
  obtain sender now c where tx: "tx = (sender, now, c)" by (cases tx)
  show ?case
  proof (cases "evm_exec env sender now c w")
    case (Inl e)
    with Cons tx show ?thesis by simp
  next
    case (Inr w1)
    from evm_exec_final [OF Inr Cons.prems(1) Cons.prems(2)]
    have 1: "transfers (bridgeC w1) tid = transfers (bridgeC w) tid"
      and 2: "bridgeNonce (bridgeC w) \<le> bridgeNonce (bridgeC w1)" by simp_all
    have 3: "\<forall>r a t n. bridgeNonce (bridgeC w1) < n \<longrightarrow> keccak256 env r a t n \<noteq> tid"
    proof (intro allI impI)
      fix r a t n
      assume "bridgeNonce (bridgeC w1) < n"
      with 2 have "bridgeNonce (bridgeC w) < n" by simp
      with Cons.prems(2) show "keccak256 env r a t n \<noteq> tid" by blast
    qed
    have "transfers (bridgeC (evm_run env txs w1)) tid = transfers (bridgeC w1) tid"
    proof (rule Cons.IH)
      show "bt_refunded (transfers (bridgeC w1) tid) \<or> bt_executed (transfers (bridgeC w1) tid)"
        using Cons.prems(1) 1 by simp
      show "\<forall>r a t n. bridgeNonce (bridgeC w1) < n \<longrightarrow> keccak256 env r a t n \<noteq> tid"
        by (rule 3)
    qed
    with Inr tx 1 show ?thesis by simp
  qed
qed

lemma evm_exec_exclusive:
  assumes ex: "evm_exec env sender now c w = Inr w'"
    and inv: "\<forall>k. \<not> (bt_executed (transfers (bridgeC w) k) \<and> bt_refunded (transfers (bridgeC w) k))"
  shows "\<not> (bt_executed (transfers (bridgeC w') k) \<and> bt_refunded (transfers (bridgeC w') k))"
proof -
  from evm_exec_transfer [OF ex] consider
      (same) "transfers (bridgeC w') = transfers (bridgeC w)"
    | (new) "new_transfer env (bridgeC w) (bridgeC w')"
    | (upd) j where
        "\<not> bt_executed (transfers (bridgeC w') j) \<or> \<not> bt_refunded (transfers (bridgeC w') j)"
        "\<forall>i. i \<noteq> j \<longrightarrow> transfers (bridgeC w') i = transfers (bridgeC w) i"
    by blast
  then show ?thesis
  proof cases
    case same
    with inv show ?thesis by simp
  next
    case new
    then obtain r a t where b': "bridgeC w' = (bridgeC w)\<lparr>bridgeNonce := bridgeNonce (bridgeC w) + 1,
         transfers := (transfers (bridgeC w))(keccak256 env r a t (bridgeNonce (bridgeC w) + 1) :=
            \<lparr>bt_suiRecipient = r, bt_amount = a, bt_initiatedAt = t, bt_confirmationCount = 0,
             bt_executed = False, bt_refunded = False\<rparr>),
         totalBridged := totalBridged (bridgeC w) + a\<rparr>"
      unfolding new_transfer_def by blast
    show ?thesis using inv by (simp add: b')
  next
    case upd
    with inv show ?thesis by (cases "k = j") auto
  qed
qed

lemma evm_run_exclusive:
  assumes "\<forall>k. \<not> (bt_executed (transfers (bridgeC w) k) \<and> bt_refunded (transfers (bridgeC w) k))"
  shows "\<not> (bt_executed (transfers (bridgeC (evm_run env txs w)) k)
            \<and> bt_refunded (transfers (bridgeC (evm_run env txs w)) k))"
  using assms
proof (induction txs arbitrary: w)
  case Nil
  then show ?case by simp
next
  case (Cons tx txs)
  obtain sender now c where tx: "tx = (sender, now, c)" by (cases tx)
  show ?case
  proof (cases "evm_exec env sender now c w")
    case (Inl e)
    with Cons tx show ?thesis by simp
  next
    case (Inr w1)
    have "\<forall>k. \<not> (bt_executed (transfers (bridgeC w1) k) \<and> bt_refunded (transfers (bridgeC w1) k))"
      using evm_exec_exclusive [OF Inr Cons.prems] by blast
    from Cons.IH [OF this] Inr tx show ?thesis by simp
  qed
qed

lemma bridge_constructor_fresh:
  "bridge_constructor sender rs = Inr b \<Longrightarrow>
   \<not> bt_executed (transfers b k) \<and> \<not> bt_refunded (transfers b k)"
  by (auto simp: bridge_constructor_def split: if_splits sum.splits)

lemma refundBridge_ok:
  assumes "bt_initiatedAt (transfers (bridgeC w) tid) \<noteq> 0"
    and "\<not> bt_executed (transfers (bridgeC w) tid)" and "\<not> bt_refunded (transfers (bridgeC w) tid)"
    and "bt_initiatedAt (transfers (bridgeC w) tid) + BRIDGE_TIMEOUT < now"
    and "bt_initiatedAt (transfers (bridgeC w) tid) + BRIDGE_TIMEOUT \<le> UINT256_MAX"
    and "bt_amount (transfers (bridgeC w) tid) \<le> totalBridged (bridgeC w)"
    and "bt_amount (transfers (bridgeC w) tid) \<le> eth w (bridgeAddr env)"
    and "accepts env a"
  shows "refundBridge env now tid a w =
     Inr (w\<lparr>bridgeC := (bridgeC w)\<lparr>transfers := (transfers (bridgeC w))
                 (tid := (transfers (bridgeC w) tid)\<lparr>bt_refunded := True\<rparr>),
               totalBridged := totalBridged (bridgeC w) - bt_amount (transfers (bridgeC w) tid)\<rparr>,
            eth := move_eth (bridgeAddr env) a (bt_amount (transfers (bridgeC w) tid)) (eth w)\<rparr>)"
  using assms by (simp add: refundBridge_def Let_def send_value_def)


















section \<open>Claim C6: releasing an approved milestone\<close>






section \<open>Claim C4: confirmations of a bridge transfer\<close>

text \<open>
  Claim C4 as stated fails in its last part. Once the second confirmation has executed the
  transfer, \<open>confirmBridge\<close> tests \<open>executed\<close> before it looks at who confirmed: a relayer
  that already confirmed is told \<open>Already executed\<close>, not \<open>Already confirmed\<close>. The
  counterexample is Scenario D after both confirmations, with relayer 21 confirming again.
\<close>

theorem C4_counterexample:
  "isRelayer (bridgeC world_D2) 21 \<and> confirmations (bridgeC world_D2) 1 21
   \<and> bt_confirmationCount (transfers (bridgeC world_D2) 1) = 2
   \<and> bt_executed (transfers (bridgeC world_D2) 1)
   \<and> confirmBridge 21 1 world_D2 = Inl (Revert ''Already executed'')
   \<and> confirmBridge 21 1 world_D2 \<noteq> Inl (Revert ''Already confirmed'')"
  by (simp add: evm_defs)

text \<open>
  Claim C4, amended. For a transfer that is initiated, not executed, not refunded and has
  no confirmation yet, and two distinct registered relayers: the first confirmation sets
  the count to 1 and does not execute; the same relayer confirming again fails with
  \<open>Already confirmed\<close>; the confirmation of the second relayer sets the count to 2 (the
  required \<open>MIN_CONFIRMATIONS\<close>) and executes the transfer; after that every confirmation
  by a registered relayer, also by one that already confirmed, fails with
  \<open>Already executed\<close>.
\<close>

theorem C4_confirmations:
  assumes "isRelayer (bridgeC w) r1" and "isRelayer (bridgeC w) r2" and "r1 \<noteq> r2"
    and "0 < bt_initiatedAt (transfers (bridgeC w) tid)"
    and "\<not> bt_executed (transfers (bridgeC w) tid)"
    and "\<not> bt_refunded (transfers (bridgeC w) tid)"
    and "bt_confirmationCount (transfers (bridgeC w) tid) = 0"
    and "\<not> confirmations (bridgeC w) tid r1" and "\<not> confirmations (bridgeC w) tid r2"
  shows "\<exists>w1 w2.
      confirmBridge r1 tid w = Inr w1
      \<and> bt_confirmationCount (transfers (bridgeC w1) tid) = 1
      \<and> \<not> bt_executed (transfers (bridgeC w1) tid)
      \<and> confirmBridge r1 tid w1 = Inl (Revert ''Already confirmed'')
      \<and> confirmBridge r2 tid w1 = Inr w2
      \<and> bt_confirmationCount (transfers (bridgeC w2) tid) = 2
      \<and> bt_executed (transfers (bridgeC w2) tid)
      \<and> isRelayer (bridgeC w2) = isRelayer (bridgeC w)
      \<and> confirmBridge r1 tid w2 = Inl (Revert ''Already executed'')
      \<and> confirmBridge r2 tid w2 = Inl (Revert ''Already executed'')
      \<and> (\<forall>r. isRelayer (bridgeC w2) r \<longrightarrow> confirmBridge r tid w2 = Inl (Revert ''Already executed''))"
  using assms
  by (simp add: confirmBridge_def executeBridge_def Let_def MIN_CONFIRMATIONS_def UINT256_MAX_def)

text \<open>The witness: Scenario D, relayers 21 and 22, then 21 and 23 after the execution.\<close>

theorem C4_confirmations_witness:
  "isRelayer (bridgeC world_D) 21 \<and> isRelayer (bridgeC world_D) 22
   \<and> bt_initiatedAt (transfers (bridgeC world_D) 1) = 5000
   \<and> bt_amount (transfers (bridgeC world_D) 1) = 1000
   \<and> bt_confirmationCount (transfers (bridgeC world_D) 1) = 0
   \<and> (\<exists>w1 w2. confirmBridge 21 1 world_D = Inr w1
        \<and> bt_confirmationCount (transfers (bridgeC w1) 1) = 1
        \<and> \<not> bt_executed (transfers (bridgeC w1) 1)
        \<and> confirmBridge 21 1 w1 = Inl (Revert ''Already confirmed'')
        \<and> confirmBridge 22 1 w1 = Inr w2
        \<and> bt_confirmationCount (transfers (bridgeC w2) 1) = 2
        \<and> bt_executed (transfers (bridgeC w2) 1)
        \<and> confirmBridge 21 1 w2 = Inl (Revert ''Already executed'')
        \<and> confirmBridge 23 1 w2 = Inl (Revert ''Already executed''))"
proof -
  have h: "isRelayer (bridgeC world_D) 21" "isRelayer (bridgeC world_D) 22" "(21::nat) \<noteq> 22"
    "0 < bt_initiatedAt (transfers (bridgeC world_D) 1)"
    "\<not> bt_executed (transfers (bridgeC world_D) 1)"
    "\<not> bt_refunded (transfers (bridgeC world_D) 1)"
    "bt_confirmationCount (transfers (bridgeC world_D) 1) = 0"
    "\<not> confirmations (bridgeC world_D) 1 21" "\<not> confirmations (bridgeC world_D) 1 22"
    by (simp_all add: evm_defs)
  have r3: "isRelayer (bridgeC world_D) 23"
    and v: "bt_initiatedAt (transfers (bridgeC world_D) 1) = 5000"
      "bt_amount (transfers (bridgeC world_D) 1) = 1000"
    by (simp_all add: evm_defs)
  from C4_confirmations [OF h] obtain w1 w2 where
    c: "confirmBridge 21 1 world_D = Inr w1"
      "bt_confirmationCount (transfers (bridgeC w1) 1) = 1"
      "\<not> bt_executed (transfers (bridgeC w1) 1)"
      "confirmBridge 21 1 w1 = Inl (Revert ''Already confirmed'')"
      "confirmBridge 22 1 w1 = Inr w2"
      "bt_confirmationCount (transfers (bridgeC w2) 1) = 2"
      "bt_executed (transfers (bridgeC w2) 1)"
      "isRelayer (bridgeC w2) = isRelayer (bridgeC world_D)"
      "confirmBridge 21 1 w2 = Inl (Revert ''Already executed'')"
      "\<forall>r. isRelayer (bridgeC w2) r \<longrightarrow> confirmBridge r 1 w2 = Inl (Revert ''Already executed'')"
    by blast
  from c(8,10) r3 have "confirmBridge 23 1 w2 = Inl (Revert ''Already executed'')" by simp
  with c h v show ?thesis by blast
qed

section \<open>Claims C2 and C3: creating an escrow\<close>










text \<open>
  Claim C3 as stated fails for a milestone amount of zero: neither contract tests the
  amounts, and an escrow with the milestones [3000, 0, 3000] is created on both chains.
\<close>

theorem C3_counterexample:
  "(case createEscrow env_ex 5 6000 1001 6 ''Site'' ''Build it'' [''design'', ''code'', ''test'']
          [3000, 0, 3000] [2000, 3000, 4000] 0 False evm_genesis of
      Inl e \<Rightarrow> False
    | Inr (escrowId, w) \<Rightarrow>
        escrowId = 1 \<and> e_status (escrows (escrowC w) 1) = Active
        \<and> map m_amount (escrowMilestones (escrowC w) 1) = [3000, 0, 3000])
   \<and> (case create_escrow 5 1001 6 ''Site'' ''Build it'' [''design'', ''code'', ''test'']
            [3000, 0, 3000] [2000, 3000, 4000] ''ethereum'' ''0xabc'' 6000 sui_genesis of
        Inl e \<Rightarrow> False
      | Inr w \<Rightarrow>
          (case escrow_objects w 10 of
             None \<Rightarrow> False
           | Some e \<Rightarrow> se_status e = ESCROW_ACTIVE \<and> map sm_amount (se_milestones e) = [3000, 0, 3000]))"
  by (simp add: evm_defs sui_defs)

text \<open>
  Claim C3, amended. If the milestone list is empty or the lists of descriptions, amounts
  and deadlines differ in length, creation fails on both chains and nothing changes. When
  the caller owns the payment the error is \<open>No milestones\<close> or \<open>Array length mismatch\<close> on the
  EVM chain and \<open>ENoMilestones\<close> or \<open>EInvalidMilestone\<close> on Sui.
\<close>

theorem C3_invalid_milestone_lists:
  assumes "descriptions = [] \<or> length descriptions \<noteq> length amounts \<or> length amounts \<noteq> length deadlines"
  shows "(\<exists>e. createEscrow env sender val now freelancer title description descriptions amounts
                 deadlines suiRecipient crossChain w = Inl e)
    \<and> (val \<le> eth w sender \<longrightarrow>
          createEscrow env sender val now freelancer title description descriptions amounts
            deadlines suiRecipient crossChain w
          = Inl (Revert (if descriptions = [] then ''No milestones'' else ''Array length mismatch'')))
    \<and> evm_run env [(sender, now, CreateEscrow val freelancer title description descriptions amounts
                                   deadlines suiRecipient crossChain)] w = w
    \<and> (\<exists>e. create_escrow sender now freelancer title description descriptions amounts deadlines
                 source_chain source_tx_hash payment sw = Inl e)
    \<and> (payment \<le> coins sw sender \<longrightarrow>
          create_escrow sender now freelancer title description descriptions amounts deadlines
            source_chain source_tx_hash payment sw
          = Inl (Abort (if descriptions = [] then ENoMilestones else EInvalidMilestone)))
    \<and> sui_run [(sender, now, Create_escrow freelancer title description descriptions amounts deadlines
                                 source_chain source_tx_hash payment)] sw = sw"
proof -
  have evm: "createEscrow env sender val now freelancer title description descriptions amounts
                 deadlines suiRecipient crossChain w
        = (if eth w sender < val then Inl OutOfFunds
           else Inl (Revert (if descriptions = [] then ''No milestones'' else ''Array length mismatch'')))"
    using assms by (auto simp add: createEscrow_def pay_in_def Let_def)
  have sui: "create_escrow sender now freelancer title description descriptions amounts deadlines
                 source_chain source_tx_hash payment sw
        = (if coins sw sender < payment then Inl CoinNotOwned
           else Inl (Abort (if descriptions = [] then ENoMilestones else EInvalidMilestone)))"
    using assms by (auto simp add: create_escrow_def Let_def)
  show ?thesis
    by (simp add: evm sui)
qed

text \<open>The witness: an empty list, and two descriptions against one amount.\<close>

theorem C3_invalid_milestone_lists_witness:
  "createEscrow env_ex 5 10000 1001 6 ''Site'' ''Build it'' [] [] [] 0 False evm_genesis
     = Inl (Revert ''No milestones'')
   \<and> createEscrow env_ex 5 10000 1001 6 ''Site'' ''Build it'' [''design'', ''code''] [3000] [2000, 3000]
        0 False evm_genesis = Inl (Revert ''Array length mismatch'')
   \<and> create_escrow 5 1001 6 ''Site'' ''Build it'' [] [] [] ''ethereum'' ''0xabc'' 10000 sui_genesis
     = Inl (Abort ENoMilestones)
   \<and> create_escrow 5 1001 6 ''Site'' ''Build it'' [''design'', ''code''] [3000] [2000, 3000]
        ''ethereum'' ''0xabc'' 10000 sui_genesis = Inl (Abort EInvalidMilestone)"
proof -
  have f: "(10000::nat) \<le> eth evm_genesis 5" "(10000::nat) \<le> coins sui_genesis 5"
    by (simp_all add: evm_defs sui_defs)
  have a: "([]::string list) = [] \<or> length ([]::string list) \<noteq> length ([]::nat list)
             \<or> length ([]::nat list) \<noteq> length ([]::nat list)"
    by simp
  have b: "[''design'', ''code''] = [] \<or> length [''design'', ''code''] \<noteq> length [3000::nat]
             \<or> length [3000::nat] \<noteq> length [2000::nat, 3000]"
    by simp
  show ?thesis
    using C3_invalid_milestone_lists [OF a, where env = env_ex and sender = 5 and val = 10000
            and w = evm_genesis and sw = sui_genesis and payment = 10000 and now = 1001
            and freelancer = 6 and title = "''Site''" and description = "''Build it''"
            and suiRecipient = 0 and crossChain = False and source_chain = "''ethereum''"
            and source_tx_hash = "''0xabc''"]
          C3_invalid_milestone_lists [OF b, where env = env_ex and sender = 5 and val = 10000
            and w = evm_genesis and sw = sui_genesis and payment = 10000 and now = 1001
            and freelancer = 6 and title = "''Site''" and description = "''Build it''"
            and suiRecipient = 0 and crossChain = False and source_chain = "''ethereum''"
            and source_tx_hash = "''0xabc''"]
          f
    by simp
qed

section \<open>Claims C8 and C9: the event handlers of the indexers\<close>

lemma find_map_inv:
  assumes "\<And>r. P (g r) = P r"
  shows "find P (map g rows) = map_option g (find P rows)"
  using assms by (induction rows) auto

lemma find_update_where:
  assumes "find P rows = Some m" and "\<And>r. P (f r) = P r"
  shows "find P (update_where (\<lambda>r. key r = key m) f rows) = Some (f m)"
proof -
  have "\<And>r. P (if key r = key m then f r else r) = P r"
    using assms(2) by simp
  then have "find P (update_where (\<lambda>r. key r = key m) f rows)
      = map_option (\<lambda>r. if key r = key m then f r else r) (find P rows)"
    unfolding update_where_def by (rule find_map_inv)
  then show ?thesis using assms(1) by simp
qed

lemma find_update_where_None:
  assumes "find P rows = None" and "\<And>r. P (f r) = P r"
  shows "find P (update_where c f rows) = None"
proof -
  have "\<And>r. P (if c r then f r else r) = P r"
    using assms(2) by simp
  then have "find P (update_where c f rows) = map_option (\<lambda>r. if c r then f r else r) (find P rows)"
    unfolding update_where_def by (rule find_map_inv)
  then show ?thesis using assms(1) by simp
qed

lemma update_where_twice:
  assumes "\<And>r. key (f1 r) = key r" and "\<And>r. f2 (f1 r) = f2 r"
  shows "update_where (\<lambda>r. key r = k) f2 (update_where (\<lambda>r. key r = k) f1 rows)
       = update_where (\<lambda>r. key r = k) f2 rows"
  using assms by (simp add: update_where_def)

lemma milestone_handler_absorb:
  fixes lookup :: "milestone_row list \<Rightarrow> milestone_row option"
    and Pe :: "escrow_row \<Rightarrow> bool"
  defines "H f db \<equiv>
     (case find Pe (escrows_tbl db) of
        None \<Rightarrow> db
      | Some escrow \<Rightarrow>
          (case lookup (milestones_tbl db) of
             None \<Rightarrow> db
           | Some milestone \<Rightarrow>
               db\<lparr>milestones_tbl := update_where (\<lambda>m. mr_id m = mr_id milestone) f (milestones_tbl db)\<rparr>))"
  assumes look: "\<And>rows m. lookup rows = Some m \<Longrightarrow>
                   lookup (update_where (\<lambda>r. mr_id r = mr_id m) f1 rows) = Some (f1 m)"
    and key: "\<And>r. mr_id (f1 r) = mr_id r"
    and abs: "\<And>r. f2 (f1 r) = f2 r"
  shows "H f2 (H f1 db) = H f2 db"
proof (cases "find Pe (escrows_tbl db)")
  case None
  then show ?thesis by (simp add: H_def)
next
  case e: (Some escrow)
  show ?thesis
  proof (cases "lookup (milestones_tbl db)")
    case None
    with e show ?thesis by (simp add: H_def)
  next
    case (Some m)
    note l = look [OF Some]
    have tw: "update_where (\<lambda>r. mr_id r = mr_id m) f2
                (update_where (\<lambda>r. mr_id r = mr_id m) f1 (milestones_tbl db))
            = update_where (\<lambda>r. mr_id r = mr_id m) f2 (milestones_tbl db)"
      using key abs by (simp add: update_where_def)
    show ?thesis
      using e Some l tw by (simp add: H_def key)
  qed
qed

lemma escrow_handler_absorb:
  fixes P :: "escrow_row \<Rightarrow> bool"
  defines "H f db \<equiv>
     (case find P (escrows_tbl db) of
        None \<Rightarrow> db
      | Some existing \<Rightarrow>
          db\<lparr>escrows_tbl := update_where (\<lambda>e. er_id e = er_id existing) f (escrows_tbl db)\<rparr>)"
  assumes inv: "\<And>r. P (f1 r) = P r"
    and key: "\<And>r. er_id (f1 r) = er_id r"
    and abs: "\<And>r. f2 (f1 r) = f2 r"
  shows "H f2 (H f1 db) = H f2 db"
proof (cases "find P (escrows_tbl db)")
  case None
  then show ?thesis by (simp add: H_def)
next
  case (Some x)
  have l: "find P (update_where (\<lambda>r. er_id r = er_id x) f1 (escrows_tbl db)) = Some (f1 x)"
    using Some inv by (rule find_update_where)
  have tw: "update_where (\<lambda>r. er_id r = er_id x) f2
              (update_where (\<lambda>r. er_id r = er_id x) f1 (escrows_tbl db))
          = update_where (\<lambda>r. er_id r = er_id x) f2 (escrows_tbl db)"
    using key abs by (simp add: update_where_def)
  show ?thesis
    using Some l tw by (simp add: H_def key)
qed

lemma find_index_update:
  assumes "find (\<lambda>m. mr_onChainId m = Some i) rows = Some m"
    and "\<And>r. mr_onChainId (f r) = mr_onChainId r"
  shows "find (\<lambda>m. mr_onChainId m = Some i) (update_where (\<lambda>r. mr_id r = mr_id m) f rows) = Some (f m)"
  using assms(1) by (rule find_update_where) (simp add: assms(2))

lemma find_milestone_update:
  assumes "find_milestone idx rows = Some m"
    and "\<And>r. mr_onChainId (f r) = mr_onChainId r"
  shows "find_milestone idx (update_where (\<lambda>r. mr_id r = mr_id m) f rows) = Some (f m)"
  using assms by (cases idx) (simp_all add: find_milestone_def find_index_update)

lemma evm_handle_absorb: "evm_handle t2 ev (evm_handle t1 ev db) = evm_handle t2 ev db"
proof (cases ev)
  case (Evm_EscrowCreated a h)
  show ?thesis
    unfolding Evm_EscrowCreated evm_handle.simps evm_handleEscrowCreated_def
    by (rule escrow_handler_absorb) (simp_all add: set_funded_def)
next
  case (Evm_MilestoneSubmitted a i n)
  show ?thesis
    unfolding Evm_MilestoneSubmitted evm_handle.simps evm_handleMilestoneSubmitted_def
    by (rule milestone_handler_absorb) (simp_all add: set_submitted_def find_index_update split: option.splits)
next
  case (Evm_MilestoneApproved a i)
  show ?thesis
    unfolding Evm_MilestoneApproved evm_handle.simps evm_handleMilestoneApproved_def
    by (rule milestone_handler_absorb) (simp_all add: set_approved_def find_index_update)
next
  case (Evm_MilestoneReleased a i amt h)
  show ?thesis
    unfolding Evm_MilestoneReleased evm_handle.simps evm_handleMilestoneReleased_def
    by (rule milestone_handler_absorb) (simp_all add: set_released_def find_index_update)
next
  case (Evm_BridgeInitiated x)
  then show ?thesis by simp
next
  case (Evm_BridgeExecuted x)
  then show ?thesis
    by (simp add: evm_handleBridgeExecuted_def update_where_def set_completed_def)
qed

lemma sui_handle_absorb: "sui_handleEvent t2 ev (sui_handleEvent t1 ev db) = sui_handleEvent t2 ev db"
proof (cases ev)
  case (Sui_EscrowCreated a h)
  show ?thesis
    unfolding Sui_EscrowCreated sui_handleEvent.simps sui_handleEscrowCreated_def
    by (rule escrow_handler_absorb) (simp_all add: set_funded_def)
next
  case (Sui_MilestoneSubmitted a i n)
  show ?thesis
    unfolding Sui_MilestoneSubmitted sui_handleEvent.simps sui_handleMilestoneSubmitted_def
    by (rule milestone_handler_absorb) (simp_all add: set_submitted_def find_milestone_update split: option.splits)
next
  case (Sui_MilestoneApproved a i)
  show ?thesis
    unfolding Sui_MilestoneApproved sui_handleEvent.simps sui_handleMilestoneApproved_def
    by (rule milestone_handler_absorb) (simp_all add: set_approved_def find_milestone_update)
next
  case (Sui_MilestoneReleased a i h)
  show ?thesis
    unfolding Sui_MilestoneReleased sui_handleEvent.simps sui_handleMilestoneReleased_def
    by (rule milestone_handler_absorb) (simp_all add: set_released_def find_milestone_update)
next
  case (Sui_DisputeInitiated a)
  show ?thesis
    unfolding Sui_DisputeInitiated sui_handleEvent.simps sui_handleDisputeInitiated_def
    by (rule escrow_handler_absorb) (simp_all add: set_escrow_status_def)
next
  case (Sui_DisputeResolved a)
  show ?thesis
    unfolding Sui_DisputeResolved sui_handleEvent.simps sui_handleDisputeResolved_def
    by (rule escrow_handler_absorb) (simp_all add: set_escrow_status_def)
next
  case (Sui_BridgeTransferInitiated x)
  then show ?thesis by simp
next
  case (Sui_BridgeTransferCompleted x h)
  then show ?thesis
    by (simp add: sui_handleBridgeCompleted_def update_where_def set_bridge_completed_def)
next
  case Sui_Unknown
  then show ?thesis by simp
qed

lemma find_Some_mem: "find P rows = Some m \<Longrightarrow> m \<in> set rows"
  by (induction rows) (auto split: if_splits)

lemma update_where_mem: "m \<in> set rows \<Longrightarrow> c m \<Longrightarrow> f m \<in> set (update_where c f rows)"
  by (force simp: update_where_def)

text \<open>
  Claim C8 as stated fails: the handlers write unconditionally. After MilestoneSubmitted
  and MilestoneApproved have been applied, applying the same MilestoneSubmitted event
  once more sets the milestone back from \<open>approved\<close> to \<open>submitted\<close>, so the mirror differs
  from the one the single application led to.
\<close>

theorem C8_counterexample:
  "map mr_status (milestones_tbl
      (evm_handle 10 (Evm_MilestoneApproved 1 0)
         (evm_handle 5 (Evm_MilestoneSubmitted 1 0 ''done'') mirror_one))) = [''approved'']
   \<and> map mr_status (milestones_tbl
        (evm_handle 20 (Evm_MilestoneSubmitted 1 0 ''done'')
           (evm_handle 10 (Evm_MilestoneApproved 1 0)
              (evm_handle 5 (Evm_MilestoneSubmitted 1 0 ''done'') mirror_one)))) = [''submitted'']
   \<and> evm_handle 20 (Evm_MilestoneSubmitted 1 0 ''done'')
        (evm_handle 10 (Evm_MilestoneApproved 1 0)
           (evm_handle 5 (Evm_MilestoneSubmitted 1 0 ''done'') mirror_one))
      \<noteq> evm_handle 10 (Evm_MilestoneApproved 1 0)
           (evm_handle 5 (Evm_MilestoneSubmitted 1 0 ''done'') mirror_one)"
  by (simp add: mirror_defs)

text \<open>
  Claim C8, amended. For every event of either chain and every mirror, applying the
  handler twice in a row gives the mirror that one application at the time of the second
  gives (the same mirror when both read the same clock: the handlers stamp the row with
  the current time). The writes do not look at the current status: whatever status the
  located milestone has, also Approved or Released, MilestoneSubmitted sets it to
  \<open>submitted\<close>.
\<close>

theorem C8_reapplied_event:
  "evm_handle t2 ev (evm_handle t1 ev db) = evm_handle t2 ev db
   \<and> sui_handleEvent t2 sev (sui_handleEvent t1 sev db) = sui_handleEvent t2 sev db
   \<and> (find (\<lambda>e. er_onChainId e = Some (toString escrowId)) (escrows_tbl db) = Some e
        \<and> find (\<lambda>m. mr_onChainId m = Some idx) (milestones_tbl db) = Some m
      \<longrightarrow> set_submitted (Some nt) t m
            \<in> set (milestones_tbl (evm_handle t (Evm_MilestoneSubmitted escrowId idx nt) db))
          \<and> mr_status (set_submitted (Some nt) t m) = ''submitted'')
   \<and> (find (\<lambda>e. er_onChainId e = Some escrow_id) (escrows_tbl db) = Some e
        \<and> find (\<lambda>m. mr_onChainId m = Some idx) (milestones_tbl db) = Some m
      \<longrightarrow> set_submitted snote t m
            \<in> set (milestones_tbl (sui_handleEvent t (Sui_MilestoneSubmitted escrow_id (Some idx) snote) db))
          \<and> mr_status (set_submitted snote t m) = ''submitted'')"
proof (intro conjI impI)
  show "evm_handle t2 ev (evm_handle t1 ev db) = evm_handle t2 ev db"
    by (rule evm_handle_absorb)
  show "sui_handleEvent t2 sev (sui_handleEvent t1 sev db) = sui_handleEvent t2 sev db"
    by (rule sui_handle_absorb)
next
  assume "find (\<lambda>e. er_onChainId e = Some (toString escrowId)) (escrows_tbl db) = Some e
        \<and> find (\<lambda>m. mr_onChainId m = Some idx) (milestones_tbl db) = Some m"
  then show "set_submitted (Some nt) t m
            \<in> set (milestones_tbl (evm_handle t (Evm_MilestoneSubmitted escrowId idx nt) db))"
    by (auto simp: evm_handleMilestoneSubmitted_def dest!: find_Some_mem intro: update_where_mem)
next
  assume "find (\<lambda>e. er_onChainId e = Some escrow_id) (escrows_tbl db) = Some e
        \<and> find (\<lambda>m. mr_onChainId m = Some idx) (milestones_tbl db) = Some m"
  then show "set_submitted snote t m
            \<in> set (milestones_tbl (sui_handleEvent t (Sui_MilestoneSubmitted escrow_id (Some idx) snote) db))"
    by (auto simp: sui_handleMilestoneSubmitted_def find_milestone_def dest!: find_Some_mem
          intro: update_where_mem)
qed (simp_all add: set_submitted_def)

text \<open>
  The witness: in \<open>mirror_two\<close> milestone 0 of escrow 1 is approved; the MilestoneSubmitted
  event sets it to submitted, and a second application changes nothing but the time.
\<close>

theorem C8_reapplied_event_witness:
  "find (\<lambda>e. er_onChainId e = Some (toString 1)) (escrows_tbl mirror_two) = Some (hd (escrows_tbl mirror_two))
   \<and> find (\<lambda>m. mr_onChainId m = Some 0) (milestones_tbl mirror_two) = Some (hd (milestones_tbl mirror_two))
   \<and> mr_status (hd (milestones_tbl mirror_two)) = ''approved''
   \<and> map mr_status (milestones_tbl (evm_handle 20 (Evm_MilestoneSubmitted 1 0 ''done'') mirror_two))
       = [''submitted'', ''pending'']
   \<and> evm_handle 21 (Evm_MilestoneSubmitted 1 0 ''done'')
        (evm_handle 20 (Evm_MilestoneSubmitted 1 0 ''done'') mirror_two)
      = evm_handle 21 (Evm_MilestoneSubmitted 1 0 ''done'') mirror_two
   \<and> sui_handleEvent 21 (Sui_MilestoneSubmitted ''1'' (Some 0) (Some ''done''))
        (sui_handleEvent 20 (Sui_MilestoneSubmitted ''1'' (Some 0) (Some ''done'')) mirror_two)
      = sui_handleEvent 21 (Sui_MilestoneSubmitted ''1'' (Some 0) (Some ''done'')) mirror_two
   \<and> map mr_status (milestones_tbl
         (sui_handleEvent 20 (Sui_MilestoneSubmitted ''1'' (Some 0) (Some ''done'')) mirror_two))
       = [''submitted'', ''pending'']"
proof -
  have f: "find (\<lambda>e. er_onChainId e = Some (toString 1)) (escrows_tbl mirror_two) = Some (hd (escrows_tbl mirror_two))"
    "find (\<lambda>m. mr_onChainId m = Some 0) (milestones_tbl mirror_two) = Some (hd (milestones_tbl mirror_two))"
    "find (\<lambda>e. er_onChainId e = Some ''1'') (escrows_tbl mirror_two) = Some (hd (escrows_tbl mirror_two))"
    by (simp_all add: mirror_defs)
  have s: "mr_status (hd (milestones_tbl mirror_two)) = ''approved''"
    "map mr_status (milestones_tbl (evm_handle 20 (Evm_MilestoneSubmitted 1 0 ''done'') mirror_two))
       = [''submitted'', ''pending'']"
    "map mr_status (milestones_tbl
         (sui_handleEvent 20 (Sui_MilestoneSubmitted ''1'' (Some 0) (Some ''done'')) mirror_two))
       = [''submitted'', ''pending'']"
    by (simp_all add: mirror_defs)
  note th = C8_reapplied_event [where db = mirror_two and ?t1.0 = 20 and ?t2.0 = 21
      and ev = "Evm_MilestoneSubmitted 1 0 ''done''"
      and sev = "Sui_MilestoneSubmitted ''1'' (Some 0) (Some ''done'')"
      and escrowId = 1 and idx = 0 and e = "hd (escrows_tbl mirror_two)"
      and m = "hd (milestones_tbl mirror_two)" and escrow_id = "''1''"]
  from th f s show ?thesis by blast
qed

text \<open>
  Claim C9 fails for the Sui indexer, by a defect in the field it reads. Its three handlers
  make the same unscoped query as the EVM handlers, but on \<open>data.milestone_index\<close>, while
  the events of \<open>escrow.move\<close> name that field \<open>milestone_id\<close>. For every event the chain
  emits the index read is not a number, the query matches no row and nothing is written:
  the row is not located by the event's milestone index. In \<open>mirror_two\<close> both escrows have
  a milestone with index 0; the events of milestone 0 of escrow \<open>2\<close> leave the mirror as it
  is, where the same event with the field the handler expects rewrites the first row.
\<close>

theorem C9_counterexample:
  "map er_onChainId (escrows_tbl mirror_two) = [Some ''1'', Some ''2'']
   \<and> map mr_onChainId (milestones_tbl mirror_two) = [Some 0, Some 0]
   \<and> sui_handleEvent 50 (sui_event_of (Move_MilestoneSubmitted ''2'' 0 6 ''done'') ''0xd'') mirror_two
       = mirror_two
   \<and> sui_handleEvent 50 (sui_event_of (Move_MilestoneApproved ''2'' 0 5) ''0xd'') mirror_two
       = mirror_two
   \<and> sui_handleEvent 50 (sui_event_of (Move_MilestoneReleased ''2'' 0 6 2970) ''0xd'') mirror_two
       = mirror_two
   \<and> map mr_status (milestones_tbl
         (sui_handleEvent 50 (Sui_MilestoneSubmitted ''2'' (Some 0) (Some ''done'')) mirror_two))
       = [''submitted'', ''pending'']
   \<and> map mr_status (milestones_tbl mirror_two) = [''approved'', ''pending'']"
  by (simp add: mirror_defs)

text \<open>
  Claim C9 holds of the EVM indexer, and of the Sui indexer for an event that carries
  \<open>milestone_index\<close>. In the six milestone handlers the escrow row found for the event only
  decides whether anything is written: two events that differ in their escrow id alone,
  both ids known to the mirror, lead to the same mirror. Nothing is written when no escrow
  row has the id of the event or no milestone row has its index. Otherwise let \<open>m\<close> be the
  first milestone row of the whole table whose \<open>onChainId\<close> is the index, whichever escrow
  it belongs to: the rows with the id of \<open>m\<close> get the status \<open>submitted\<close>, \<open>approved\<close> or
  \<open>released\<close> with the note, the time and the transaction hash of the event, and every
  other row and table is kept. Without \<open>milestone_index\<close>, as in every event of
  \<open>escrow.move\<close>, the Sui handlers return the mirror unchanged.
\<close>

theorem C9_milestone_located_by_index_alone:
  "(find (\<lambda>e. er_onChainId e = Some (toString a)) (escrows_tbl db) \<noteq> None
      \<and> find (\<lambda>e. er_onChainId e = Some (toString b)) (escrows_tbl db) \<noteq> None
    \<longrightarrow> evm_handleMilestoneSubmitted t a i nt db = evm_handleMilestoneSubmitted t b i nt db
        \<and> evm_handleMilestoneApproved t a i db = evm_handleMilestoneApproved t b i db
        \<and> evm_handleMilestoneReleased t a i h db = evm_handleMilestoneReleased t b i h db)
   \<and> (find (\<lambda>e. er_onChainId e = Some sa) (escrows_tbl db) \<noteq> None
      \<and> find (\<lambda>e. er_onChainId e = Some sb) (escrows_tbl db) \<noteq> None
    \<longrightarrow> sui_handleMilestoneSubmitted t sa si snote db = sui_handleMilestoneSubmitted t sb si snote db
        \<and> sui_handleMilestoneApproved t sa si db = sui_handleMilestoneApproved t sb si db
        \<and> sui_handleMilestoneReleased t sa si h db = sui_handleMilestoneReleased t sb si h db)
   \<and> (find (\<lambda>e. er_onChainId e = Some (toString a)) (escrows_tbl db) = None
      \<or> find (\<lambda>m. mr_onChainId m = Some i) (milestones_tbl db) = None
    \<longrightarrow> evm_handleMilestoneSubmitted t a i nt db = db
        \<and> evm_handleMilestoneApproved t a i db = db
        \<and> evm_handleMilestoneReleased t a i h db = db)
   \<and> (find (\<lambda>e. er_onChainId e = Some (toString a)) (escrows_tbl db) = Some e
      \<and> find (\<lambda>m. mr_onChainId m = Some i) (milestones_tbl db) = Some m
    \<longrightarrow> evm_handleMilestoneSubmitted t a i nt db
          = db\<lparr>milestones_tbl := map (\<lambda>r. if mr_id r = mr_id m
                   then r\<lparr>mr_status := ''submitted'', mr_submissionNote := Some nt,
                          mr_submittedAt := Some t\<rparr> else r) (milestones_tbl db)\<rparr>
        \<and> evm_handleMilestoneApproved t a i db
          = db\<lparr>milestones_tbl := map (\<lambda>r. if mr_id r = mr_id m
                   then r\<lparr>mr_status := ''approved'', mr_approvedAt := Some t\<rparr> else r)
                 (milestones_tbl db)\<rparr>
        \<and> evm_handleMilestoneReleased t a i h db
          = db\<lparr>milestones_tbl := map (\<lambda>r. if mr_id r = mr_id m
                   then r\<lparr>mr_status := ''released'', mr_releasedAt := Some t,
                          mr_releaseTxHash := Some h\<rparr> else r) (milestones_tbl db)\<rparr>)
   \<and> (find (\<lambda>e. er_onChainId e = Some sa) (escrows_tbl db) = Some e
      \<and> find (\<lambda>m. mr_onChainId m = Some i) (milestones_tbl db) = Some m
    \<longrightarrow> sui_handleMilestoneSubmitted t sa (Some i) snote db
          = db\<lparr>milestones_tbl := map (\<lambda>r. if mr_id r = mr_id m
                   then r\<lparr>mr_status := ''submitted'',
                          mr_submissionNote := (case snote of None \<Rightarrow> mr_submissionNote r
                                                | Some n \<Rightarrow> Some n),
                          mr_submittedAt := Some t\<rparr> else r) (milestones_tbl db)\<rparr>
        \<and> sui_handleMilestoneApproved t sa (Some i) db
          = db\<lparr>milestones_tbl := map (\<lambda>r. if mr_id r = mr_id m
                   then r\<lparr>mr_status := ''approved'', mr_approvedAt := Some t\<rparr> else r)
                 (milestones_tbl db)\<rparr>
        \<and> sui_handleMilestoneReleased t sa (Some i) h db
          = db\<lparr>milestones_tbl := map (\<lambda>r. if mr_id r = mr_id m
                   then r\<lparr>mr_status := ''released'', mr_releasedAt := Some t,
                          mr_releaseTxHash := Some h\<rparr> else r) (milestones_tbl db)\<rparr>)
   \<and> (find (\<lambda>e. er_onChainId e = Some sa) (escrows_tbl db) = None
      \<or> find (\<lambda>m. mr_onChainId m = Some i) (milestones_tbl db) = None
    \<longrightarrow> sui_handleMilestoneSubmitted t sa (Some i) snote db = db
        \<and> sui_handleMilestoneApproved t sa (Some i) db = db
        \<and> sui_handleMilestoneReleased t sa (Some i) h db = db)
   \<and> sui_handleMilestoneSubmitted t sa None snote db = db
   \<and> sui_handleMilestoneApproved t sa None db = db
   \<and> sui_handleMilestoneReleased t sa None h db = db
   \<and> sui_handleEvent t (sui_event_of mev h) db = db"
proof -
  have none: "sui_handleMilestoneSubmitted t x None y db = db"
    "sui_handleMilestoneApproved t x None db = db"
    "sui_handleMilestoneReleased t x None z db = db" for x y z
    by (simp_all add: sui_handleMilestoneSubmitted_def sui_handleMilestoneApproved_def
          sui_handleMilestoneReleased_def find_milestone_def split: option.splits)
  have real: "sui_handleEvent t (sui_event_of mev h) db = db"
    by (cases mev) (simp_all add: none)
  have rest: "(find (\<lambda>e. er_onChainId e = Some (toString a)) (escrows_tbl db) \<noteq> None
      \<and> find (\<lambda>e. er_onChainId e = Some (toString b)) (escrows_tbl db) \<noteq> None
    \<longrightarrow> evm_handleMilestoneSubmitted t a i nt db = evm_handleMilestoneSubmitted t b i nt db
        \<and> evm_handleMilestoneApproved t a i db = evm_handleMilestoneApproved t b i db
        \<and> evm_handleMilestoneReleased t a i h db = evm_handleMilestoneReleased t b i h db)
   \<and> (find (\<lambda>e. er_onChainId e = Some sa) (escrows_tbl db) \<noteq> None
      \<and> find (\<lambda>e. er_onChainId e = Some sb) (escrows_tbl db) \<noteq> None
    \<longrightarrow> sui_handleMilestoneSubmitted t sa si snote db = sui_handleMilestoneSubmitted t sb si snote db
        \<and> sui_handleMilestoneApproved t sa si db = sui_handleMilestoneApproved t sb si db
        \<and> sui_handleMilestoneReleased t sa si h db = sui_handleMilestoneReleased t sb si h db)
   \<and> (find (\<lambda>e. er_onChainId e = Some (toString a)) (escrows_tbl db) = None
      \<or> find (\<lambda>m. mr_onChainId m = Some i) (milestones_tbl db) = None
    \<longrightarrow> evm_handleMilestoneSubmitted t a i nt db = db
        \<and> evm_handleMilestoneApproved t a i db = db
        \<and> evm_handleMilestoneReleased t a i h db = db)
   \<and> (find (\<lambda>e. er_onChainId e = Some sa) (escrows_tbl db) = None
      \<or> find (\<lambda>m. mr_onChainId m = Some i) (milestones_tbl db) = None
    \<longrightarrow> sui_handleMilestoneSubmitted t sa (Some i) snote db = db
        \<and> sui_handleMilestoneApproved t sa (Some i) db = db
        \<and> sui_handleMilestoneReleased t sa (Some i) h db = db)"
    by (auto simp: evm_handleMilestoneSubmitted_def evm_handleMilestoneApproved_def
          evm_handleMilestoneReleased_def sui_handleMilestoneSubmitted_def
          sui_handleMilestoneApproved_def sui_handleMilestoneReleased_def find_milestone_def
        split: option.splits)
  have evm: "find (\<lambda>e. er_onChainId e = Some (toString a)) (escrows_tbl db) = Some e
      \<and> find (\<lambda>m. mr_onChainId m = Some i) (milestones_tbl db) = Some m
    \<longrightarrow> evm_handleMilestoneSubmitted t a i nt db
          = db\<lparr>milestones_tbl := map (\<lambda>r. if mr_id r = mr_id m
                   then r\<lparr>mr_status := ''submitted'', mr_submissionNote := Some nt,
                          mr_submittedAt := Some t\<rparr> else r) (milestones_tbl db)\<rparr>
        \<and> evm_handleMilestoneApproved t a i db
          = db\<lparr>milestones_tbl := map (\<lambda>r. if mr_id r = mr_id m
                   then r\<lparr>mr_status := ''approved'', mr_approvedAt := Some t\<rparr> else r)
                 (milestones_tbl db)\<rparr>
        \<and> evm_handleMilestoneReleased t a i h db
          = db\<lparr>milestones_tbl := map (\<lambda>r. if mr_id r = mr_id m
                   then r\<lparr>mr_status := ''released'', mr_releasedAt := Some t,
                          mr_releaseTxHash := Some h\<rparr> else r) (milestones_tbl db)\<rparr>"
    by (simp add: evm_handleMilestoneSubmitted_def evm_handleMilestoneApproved_def
          evm_handleMilestoneReleased_def update_where_def set_submitted_def set_approved_def
          set_released_def)
  have sui: "find (\<lambda>e. er_onChainId e = Some sa) (escrows_tbl db) = Some e
      \<and> find (\<lambda>m. mr_onChainId m = Some i) (milestones_tbl db) = Some m
    \<longrightarrow> sui_handleMilestoneSubmitted t sa (Some i) snote db
          = db\<lparr>milestones_tbl := map (\<lambda>r. if mr_id r = mr_id m
                   then r\<lparr>mr_status := ''submitted'',
                          mr_submissionNote := (case snote of None \<Rightarrow> mr_submissionNote r
                                                | Some n \<Rightarrow> Some n),
                          mr_submittedAt := Some t\<rparr> else r) (milestones_tbl db)\<rparr>
        \<and> sui_handleMilestoneApproved t sa (Some i) db
          = db\<lparr>milestones_tbl := map (\<lambda>r. if mr_id r = mr_id m
                   then r\<lparr>mr_status := ''approved'', mr_approvedAt := Some t\<rparr> else r)
                 (milestones_tbl db)\<rparr>
        \<and> sui_handleMilestoneReleased t sa (Some i) h db
          = db\<lparr>milestones_tbl := map (\<lambda>r. if mr_id r = mr_id m
                   then r\<lparr>mr_status := ''released'', mr_releasedAt := Some t,
                          mr_releaseTxHash := Some h\<rparr> else r) (milestones_tbl db)\<rparr>"
    by (simp add: sui_handleMilestoneSubmitted_def sui_handleMilestoneApproved_def
          sui_handleMilestoneReleased_def find_milestone_def update_where_def set_submitted_def
          set_approved_def set_released_def)
  show ?thesis
    using rest evm sui none real by blast
qed

text \<open>
  The witness: in \<open>mirror_two\<close> the events of milestone 0 of escrow 2 are matched to the
  mirror escrow \<open>esc-B\<close>, but each handler writes the row \<open>mA0\<close> of escrow \<open>esc-A\<close>, which
  goes from approved to submitted, approved (at the time of the second event) and
  released; the milestone \<open>mB0\<close> of \<open>esc-B\<close> stays pending. The same event for escrow 1
  gives the same mirror.
\<close>

theorem C9_milestone_located_by_index_alone_witness:
  "map er_id (escrows_tbl mirror_two) = [''esc-A'', ''esc-B'']
   \<and> map er_onChainId (escrows_tbl mirror_two) = [Some ''1'', Some ''2'']
   \<and> map mr_id (milestones_tbl mirror_two) = [''mA0'', ''mB0'']
   \<and> map mr_escrowId (milestones_tbl mirror_two) = [''esc-A'', ''esc-B'']
   \<and> map mr_onChainId (milestones_tbl mirror_two) = [Some 0, Some 0]
   \<and> map mr_status (milestones_tbl mirror_two) = [''approved'', ''pending'']
   \<and> map mr_approvedAt (milestones_tbl mirror_two) = [Some 10, None]
   \<and> map mr_status (milestones_tbl (evm_handleMilestoneSubmitted 50 2 0 ''done'' mirror_two))
       = [''submitted'', ''pending'']
   \<and> evm_handleMilestoneSubmitted 50 2 0 ''done'' mirror_two
       = evm_handleMilestoneSubmitted 50 1 0 ''done'' mirror_two
   \<and> map mr_status (milestones_tbl (evm_handleMilestoneApproved 60 2 0
         (evm_handleMilestoneSubmitted 50 2 0 ''done'' mirror_two)))
       = [''approved'', ''pending'']
   \<and> map mr_approvedAt (milestones_tbl (evm_handleMilestoneApproved 60 2 0
         (evm_handleMilestoneSubmitted 50 2 0 ''done'' mirror_two)))
       = [Some 60, None]
   \<and> map mr_status (milestones_tbl (evm_handleMilestoneReleased 70 2 0 ''0xd'' mirror_two))
       = [''released'', ''pending'']
   \<and> map mr_releaseTxHash (milestones_tbl (evm_handleMilestoneReleased 70 2 0 ''0xd'' mirror_two))
       = [Some ''0xd'', None]
   \<and> map mr_status (milestones_tbl (sui_handleMilestoneApproved 60 ''2'' (Some 0)
         (evm_handleMilestoneSubmitted 50 2 0 ''done'' mirror_two)))
       = [''approved'', ''pending'']
   \<and> sui_handleMilestoneApproved 60 ''2'' None mirror_two = mirror_two"
proof -
  let ?db1 = "evm_handleMilestoneSubmitted 50 2 0 ''done'' mirror_two"
  have f: "find (\<lambda>e. er_onChainId e = Some (toString 2)) (escrows_tbl mirror_two)
             = Some (escrows_tbl mirror_two ! 1)
           \<and> find (\<lambda>m. mr_onChainId m = Some 0) (milestones_tbl mirror_two)
             = Some (milestones_tbl mirror_two ! 0)"
    by (simp add: mirror_defs)
  have f1: "find (\<lambda>e. er_onChainId e = Some (toString 2)) (escrows_tbl ?db1)
             = Some (escrows_tbl ?db1 ! 1)
           \<and> find (\<lambda>m. mr_onChainId m = Some 0) (milestones_tbl ?db1)
             = Some (milestones_tbl ?db1 ! 0)"
    by (simp add: mirror_defs)
  have fs: "find (\<lambda>e. er_onChainId e = Some ''2'') (escrows_tbl ?db1)
             = Some (escrows_tbl ?db1 ! 1)
           \<and> find (\<lambda>m. mr_onChainId m = Some 0) (milestones_tbl ?db1)
             = Some (milestones_tbl ?db1 ! 0)"
    by (simp add: mirror_defs)
  have ab: "find (\<lambda>e. er_onChainId e = Some (toString 2)) (escrows_tbl mirror_two) \<noteq> None
           \<and> find (\<lambda>e. er_onChainId e = Some (toString 1)) (escrows_tbl mirror_two) \<noteq> None"
    by (simp add: mirror_defs)
  have g: "map er_id (escrows_tbl mirror_two) = [''esc-A'', ''esc-B'']"
    "map er_onChainId (escrows_tbl mirror_two) = [Some ''1'', Some ''2'']"
    "map mr_id (milestones_tbl mirror_two) = [''mA0'', ''mB0'']"
    "map mr_escrowId (milestones_tbl mirror_two) = [''esc-A'', ''esc-B'']"
    "map mr_onChainId (milestones_tbl mirror_two) = [Some 0, Some 0]"
    "map mr_status (milestones_tbl mirror_two) = [''approved'', ''pending'']"
    "map mr_approvedAt (milestones_tbl mirror_two) = [Some 10, None]"
    by (simp_all add: mirror_defs)
  note same = C9_milestone_located_by_index_alone [where db = mirror_two and a = 2 and b = 1
      and i = 0 and t = 50 and nt = "''done''", THEN conjunct1, THEN mp, OF ab, THEN conjunct1]
  note sub = C9_milestone_located_by_index_alone [where db = mirror_two and a = 2 and i = 0
      and e = "escrows_tbl mirror_two ! 1" and m = "milestones_tbl mirror_two ! 0"
      and t = 50 and nt = "''done''",
      THEN conjunct2, THEN conjunct2, THEN conjunct2, THEN conjunct1, THEN mp, OF f,
      THEN conjunct1]
  note rel = C9_milestone_located_by_index_alone [where db = mirror_two and a = 2 and i = 0
      and e = "escrows_tbl mirror_two ! 1" and m = "milestones_tbl mirror_two ! 0"
      and t = 70 and h = "''0xd''",
      THEN conjunct2, THEN conjunct2, THEN conjunct2, THEN conjunct1, THEN mp, OF f,
      THEN conjunct2, THEN conjunct2]
  note app = C9_milestone_located_by_index_alone [where db = ?db1 and a = 2 and i = 0
      and e = "escrows_tbl ?db1 ! 1" and m = "milestones_tbl ?db1 ! 0" and t = 60,
      THEN conjunct2, THEN conjunct2, THEN conjunct2, THEN conjunct1, THEN mp, OF f1,
      THEN conjunct2, THEN conjunct1]
  note sapp = C9_milestone_located_by_index_alone [where db = ?db1 and sa = "''2''" and i = 0
      and e = "escrows_tbl ?db1 ! 1" and m = "milestones_tbl ?db1 ! 0" and t = 60,
      THEN conjunct2, THEN conjunct2, THEN conjunct2, THEN conjunct2, THEN conjunct1, THEN mp,
      OF fs, THEN conjunct2, THEN conjunct1]
  note none = C9_milestone_located_by_index_alone [where db = mirror_two and sa = "''2''" and t = 60,
      THEN conjunct2, THEN conjunct2, THEN conjunct2, THEN conjunct2, THEN conjunct2,
      THEN conjunct2, THEN conjunct2, THEN conjunct1]
  have a1: "map mr_status (milestones_tbl (evm_handleMilestoneSubmitted 50 2 0 ''done'' mirror_two))
       = [''submitted'', ''pending'']"
    by (subst sub) (simp add: mirror_defs)
  have a2: "map mr_status (milestones_tbl (evm_handleMilestoneApproved 60 2 0 ?db1))
       = [''approved'', ''pending'']"
    "map mr_approvedAt (milestones_tbl (evm_handleMilestoneApproved 60 2 0 ?db1)) = [Some 60, None]"
    by (subst app, simp add: mirror_defs)+
  have a3: "map mr_status (milestones_tbl (evm_handleMilestoneReleased 70 2 0 ''0xd'' mirror_two))
       = [''released'', ''pending'']"
    "map mr_releaseTxHash (milestones_tbl (evm_handleMilestoneReleased 70 2 0 ''0xd'' mirror_two))
       = [Some ''0xd'', None]"
    by (subst rel, simp add: mirror_defs)+
  have a4: "map mr_status (milestones_tbl (sui_handleMilestoneApproved 60 ''2'' (Some 0) ?db1))
       = [''approved'', ''pending'']"
    by (subst sapp) (simp add: mirror_defs)
  show ?thesis
    by (intro conjI) (fact g same a1 a2 a3 a4 none)+
qed

section \<open>Claim C7: refund of a bridge transfer\<close>

text \<open>
  Claim C7 fails in who is paid, by a defect of \<open>refundBridge\<close>. The contract documents
  the function as the refund of a timed-out transfer and its second parameter as the
  original sender's address, but the transfer record does not hold the address that
  initiated the transfer, nothing checks the parameter, and anyone may call. So the refund
  goes to whatever address the caller names. In Scenario D the client 5 paid 1000 into
  transfer 1; after the timeout, address 9 calls \<open>refundBridge(1, 9)\<close> and receives the
  1000, and the client receives nothing.
\<close>

theorem C7_counterexample:
  "eth evm_genesis 5 = 100000 \<and> eth world_D 5 = 99000 \<and> eth world_D 9 = 0
   \<and> bt_amount (transfers (bridgeC world_D) 1) = 1000
   \<and> bt_initiatedAt (transfers (bridgeC world_D) 1) = 5000
   \<and> (\<exists>w'. evm_exec env_ex 9 (5000 + BRIDGE_TIMEOUT + 1) (RefundBridge 1 9) world_D = Inr w'
          \<and> bt_refunded (transfers (bridgeC w') 1)
          \<and> eth w' 9 = 1000 \<and> eth w' 5 = 99000 \<and> eth w' 200 = 0)"
  by (simp add: evm_defs)

text \<open>
  Claim C7, the payee apart, holds of the code. Let transfer \<open>tid\<close> be initiated, not
  executed and not refunded (with \<open>initiatedAt + 24h\<close> inside \<open>uint256\<close>). Whoever the caller is:
  while \<open>now \<le> initiatedAt + 24h\<close>, \<open>refundBridge\<close> fails with \<open>Not timed out\<close>;
  once \<open>now > initiatedAt + 24h\<close> (the bridge holding the amount and the payee accepting
  ether) it succeeds and moves the full amount of the transfer out of the bridge, to the
  address \<open>a\<close> named in the call: to the original sender exactly when the caller names
  them, which is the defect above. From then on, whatever
  transactions follow (no later transfer hashing to the same id), the transfer stays
  refunded and not executed, every \<open>confirmBridge\<close> of it by a relayer fails with
  \<open>Already refunded\<close> (by anyone else with \<open>Not relayer\<close>), and every further refund of it
  fails with \<open>Already refunded\<close>. Finally \<open>executed\<close> and \<open>refunded\<close> are never both true:
  no transfer has either flag after the constructor, and no transaction makes both true.
\<close>

theorem C7_refund_bridge:
  assumes "bt_initiatedAt (transfers (bridgeC w) tid) \<noteq> 0"
    and "\<not> bt_executed (transfers (bridgeC w) tid)"
    and "\<not> bt_refunded (transfers (bridgeC w) tid)"
    and "bt_initiatedAt (transfers (bridgeC w) tid) + BRIDGE_TIMEOUT \<le> UINT256_MAX"
  shows "(now \<le> bt_initiatedAt (transfers (bridgeC w) tid) + BRIDGE_TIMEOUT \<longrightarrow>
            evm_exec env caller now (RefundBridge tid a) w = Inl (Revert ''Not timed out''))
       \<and> (bt_initiatedAt (transfers (bridgeC w) tid) + BRIDGE_TIMEOUT < now
            \<and> bt_amount (transfers (bridgeC w) tid) \<le> totalBridged (bridgeC w)
            \<and> bt_amount (transfers (bridgeC w) tid) \<le> eth w (bridgeAddr env)
            \<and> accepts env a
            \<and> (\<forall>r v t n. bridgeNonce (bridgeC w) < n \<longrightarrow> keccak256 env r v t n \<noteq> tid) \<longrightarrow>
          (\<exists>w'. evm_exec env caller now (RefundBridge tid a) w = Inr w'
             \<and> eth w' = move_eth (bridgeAddr env) a (bt_amount (transfers (bridgeC w) tid)) (eth w)
             \<and> (\<forall>txs r c n b.
                   bt_refunded (transfers (bridgeC (evm_run env txs w')) tid)
                   \<and> \<not> bt_executed (transfers (bridgeC (evm_run env txs w')) tid)
                   \<and> confirmBridge r tid (evm_run env txs w')
                       = Inl (Revert (if isRelayer (bridgeC (evm_run env txs w')) r
                                      then ''Already refunded'' else ''Not relayer''))
                   \<and> evm_exec env c n (RefundBridge tid b) (evm_run env txs w')
                       = Inl (Revert ''Already refunded''))))
       \<and> (\<forall>sender rs b k. bridge_constructor sender rs = Inr b \<longrightarrow>
             \<not> bt_executed (transfers b k) \<and> \<not> bt_refunded (transfers b k))
       \<and> ((\<forall>k. \<not> (bt_executed (transfers (bridgeC w) k) \<and> bt_refunded (transfers (bridgeC w) k))) \<longrightarrow>
          (\<forall>txs k. \<not> (bt_executed (transfers (bridgeC (evm_run env txs w)) k)
                      \<and> bt_refunded (transfers (bridgeC (evm_run env txs w)) k))))"
proof (intro conjI impI allI)
  assume "now \<le> bt_initiatedAt (transfers (bridgeC w) tid) + BRIDGE_TIMEOUT"
  with assms show "evm_exec env caller now (RefundBridge tid a) w = Inl (Revert ''Not timed out'')"
    by (simp add: refundBridge_def Let_def)
next
  assume h: "bt_initiatedAt (transfers (bridgeC w) tid) + BRIDGE_TIMEOUT < now
            \<and> bt_amount (transfers (bridgeC w) tid) \<le> totalBridged (bridgeC w)
            \<and> bt_amount (transfers (bridgeC w) tid) \<le> eth w (bridgeAddr env)
            \<and> accepts env a
            \<and> (\<forall>r v t n. bridgeNonce (bridgeC w) < n \<longrightarrow> keccak256 env r v t n \<noteq> tid)"
  let ?w' = "w\<lparr>bridgeC := (bridgeC w)\<lparr>transfers := (transfers (bridgeC w))
                 (tid := (transfers (bridgeC w) tid)\<lparr>bt_refunded := True\<rparr>),
               totalBridged := totalBridged (bridgeC w) - bt_amount (transfers (bridgeC w) tid)\<rparr>,
            eth := move_eth (bridgeAddr env) a (bt_amount (transfers (bridgeC w) tid)) (eth w)\<rparr>"
  have r: "refundBridge env now tid a w = Inr ?w'"
    using assms h by (intro refundBridge_ok) simp_all
  have t': "transfers (bridgeC ?w') tid = (transfers (bridgeC w) tid)\<lparr>bt_refunded := True\<rparr>"
    by simp
  have fin: "bt_refunded (transfers (bridgeC ?w') tid) \<or> bt_executed (transfers (bridgeC ?w') tid)"
    by simp
  have fresh: "\<forall>r v t n. bridgeNonce (bridgeC ?w') < n \<longrightarrow> keccak256 env r v t n \<noteq> tid"
    using h by simp
  have frozen: "transfers (bridgeC (evm_run env txs ?w')) tid
                  = (transfers (bridgeC w) tid)\<lparr>bt_refunded := True\<rparr>" for txs
    using evm_run_final [OF fin fresh, of txs] t' by simp
  have after: "bt_refunded (transfers (bridgeC (evm_run env txs ?w')) tid)
       \<and> \<not> bt_executed (transfers (bridgeC (evm_run env txs ?w')) tid)
       \<and> confirmBridge r tid (evm_run env txs ?w')
           = Inl (Revert (if isRelayer (bridgeC (evm_run env txs ?w')) r
                          then ''Already refunded'' else ''Not relayer''))
       \<and> evm_exec env c n (RefundBridge tid b) (evm_run env txs ?w')
           = Inl (Revert ''Already refunded'')" for txs r c n b
    using assms(1,2) by (simp add: frozen confirmBridge_def refundBridge_def Let_def)
  show "\<exists>w'. evm_exec env caller now (RefundBridge tid a) w = Inr w'
             \<and> eth w' = move_eth (bridgeAddr env) a (bt_amount (transfers (bridgeC w) tid)) (eth w)
             \<and> (\<forall>txs r c n b.
                   bt_refunded (transfers (bridgeC (evm_run env txs w')) tid)
                   \<and> \<not> bt_executed (transfers (bridgeC (evm_run env txs w')) tid)
                   \<and> confirmBridge r tid (evm_run env txs w')
                       = Inl (Revert (if isRelayer (bridgeC (evm_run env txs w')) r
                                      then ''Already refunded'' else ''Not relayer''))
                   \<and> evm_exec env c n (RefundBridge tid b) (evm_run env txs w')
                       = Inl (Revert ''Already refunded''))"
  proof (intro exI [of _ ?w'] conjI allI)
    show "evm_exec env caller now (RefundBridge tid a) w = Inr ?w'" using r by simp
    show "eth ?w' = move_eth (bridgeAddr env) a (bt_amount (transfers (bridgeC w) tid)) (eth w)"
      by simp
  qed (use after in blast)+
next
  fix sender rs b k
  assume "bridge_constructor sender rs = Inr b"
  from bridge_constructor_fresh [OF this, of k]
  show "\<not> bt_executed (transfers b k)" "\<not> bt_refunded (transfers b k)" by simp_all
next
  fix txs k
  assume "\<forall>k. \<not> (bt_executed (transfers (bridgeC w) k) \<and> bt_refunded (transfers (bridgeC w) k))"
  from evm_run_exclusive [OF this, of env txs k]
  show "\<not> (bt_executed (transfers (bridgeC (evm_run env txs w)) k)
            \<and> bt_refunded (transfers (bridgeC (evm_run env txs w)) k))" .
qed

text \<open>
  The witness: Scenario E. The client 5 initiates transfer 1 (1000 wei) at time 5000 and
  no relayer confirms. At 5000 + 24h a refund is refused; 25 hours after the start address
  9 triggers the refund naming the client, who is paid the 1000. A confirmation by relayer
  21, a new transfer and a second refund follow: the transfer stays refunded, the
  confirmation fails with \<open>Already refunded\<close>.
\<close>

theorem C7_refund_bridge_witness:
  "bt_initiatedAt (transfers (bridgeC world_D) 1) = 5000
   \<and> bt_amount (transfers (bridgeC world_D) 1) = 1000
   \<and> \<not> bt_executed (transfers (bridgeC world_D) 1) \<and> \<not> bt_refunded (transfers (bridgeC world_D) 1)
   \<and> evm_exec env_ex 9 91400 (RefundBridge 1 5) world_D = Inl (Revert ''Not timed out'')
   \<and> (\<exists>w'. evm_exec env_ex 9 95000 (RefundBridge 1 5) world_D = Inr w'
        \<and> eth w' 5 = eth world_D 5 + 1000 \<and> eth w' 200 = eth world_D 200 - 1000
        \<and> bt_refunded (transfers (bridgeC (evm_run env_ex
              [(21, 95001, ConfirmBridge 1), (5, 95002, InitiateBridge 500 77 500)] w')) 1)
        \<and> \<not> bt_executed (transfers (bridgeC (evm_run env_ex
              [(21, 95001, ConfirmBridge 1), (5, 95002, InitiateBridge 500 77 500)] w')) 1)
        \<and> confirmBridge 21 1 (evm_run env_ex
              [(21, 95001, ConfirmBridge 1), (5, 95002, InitiateBridge 500 77 500)] w')
            = Inl (Revert ''Already refunded'')
        \<and> evm_exec env_ex 5 95003 (RefundBridge 1 5) (evm_run env_ex
              [(21, 95001, ConfirmBridge 1), (5, 95002, InitiateBridge 500 77 500)] w')
            = Inl (Revert ''Already refunded''))
   \<and> bt_executed (transfers (bridgeC (evm_run env_ex
              [(21, 5001, ConfirmBridge 1), (22, 5002, ConfirmBridge 1),
               (9, 95000, RefundBridge 1 5)] world_D)) 1)
   \<and> \<not> bt_refunded (transfers (bridgeC (evm_run env_ex
              [(21, 5001, ConfirmBridge 1), (22, 5002, ConfirmBridge 1),
               (9, 95000, RefundBridge 1 5)] world_D)) 1)"
proof -
  let ?txs = "[(21, 95001, ConfirmBridge 1), (5, 95002, InitiateBridge 500 77 500)]"
  let ?txs2 = "[(21, 5001, ConfirmBridge 1), (22, 5002, ConfirmBridge 1),
               (9, 95000, RefundBridge 1 5)]"
  have h: "bt_initiatedAt (transfers (bridgeC world_D) 1) \<noteq> 0"
    "\<not> bt_executed (transfers (bridgeC world_D) 1)"
    "\<not> bt_refunded (transfers (bridgeC world_D) 1)"
    "bt_initiatedAt (transfers (bridgeC world_D) 1) + BRIDGE_TIMEOUT \<le> UINT256_MAX"
    by (simp_all add: evm_defs)
  have v: "bt_initiatedAt (transfers (bridgeC world_D) 1) = 5000"
    "bt_amount (transfers (bridgeC world_D) 1) = 1000"
    "isRelayer (bridgeC world_D) 21"
    by (simp_all add: evm_defs)
  note c7 = C7_refund_bridge [OF h, where env = env_ex and a = 5 and caller = 9]
  have before: "evm_exec env_ex 9 91400 (RefundBridge 1 5) world_D = Inl (Revert ''Not timed out'')"
    using c7 [of 91400] v by (simp add: BRIDGE_TIMEOUT_def)
  have pre: "bt_initiatedAt (transfers (bridgeC world_D) 1) + BRIDGE_TIMEOUT < 95000
            \<and> bt_amount (transfers (bridgeC world_D) 1) \<le> totalBridged (bridgeC world_D)
            \<and> bt_amount (transfers (bridgeC world_D) 1) \<le> eth world_D (bridgeAddr env_ex)
            \<and> accepts env_ex 5
            \<and> (\<forall>r v t n. bridgeNonce (bridgeC world_D) < n \<longrightarrow> keccak256 env_ex r v t n \<noteq> 1)"
    by (simp add: evm_defs)
  from c7 [of 95000] pre obtain w' where
    w': "evm_exec env_ex 9 95000 (RefundBridge 1 5) world_D = Inr w'"
      "eth w' = move_eth (bridgeAddr env_ex) 5 (bt_amount (transfers (bridgeC world_D) 1)) (eth world_D)"
      "\<forall>txs r c n b.
          bt_refunded (transfers (bridgeC (evm_run env_ex txs w')) 1)
          \<and> \<not> bt_executed (transfers (bridgeC (evm_run env_ex txs w')) 1)
          \<and> confirmBridge r 1 (evm_run env_ex txs w')
              = Inl (Revert (if isRelayer (bridgeC (evm_run env_ex txs w')) r
                             then ''Already refunded'' else ''Not relayer''))
          \<and> evm_exec env_ex c n (RefundBridge 1 b) (evm_run env_ex txs w')
              = Inl (Revert ''Already refunded'')"
    by blast
  have e: "eth w' 5 = eth world_D 5 + 1000" "eth w' 200 = eth world_D 200 - 1000"
    using w'(2) v by (simp_all add: move_eth_def env_ex_def Let_def)
  have rel: "isRelayer (bridgeC (evm_run env_ex ?txs w')) 21"
    using w'(1) by (auto simp add: evm_defs split: if_splits)
  from w'(3) have a: "bt_refunded (transfers (bridgeC (evm_run env_ex ?txs w')) 1)"
    "\<not> bt_executed (transfers (bridgeC (evm_run env_ex ?txs w')) 1)"
    "confirmBridge 21 1 (evm_run env_ex ?txs w')
       = Inl (Revert (if isRelayer (bridgeC (evm_run env_ex ?txs w')) 21
                      then ''Already refunded'' else ''Not relayer''))"
    "evm_exec env_ex 5 95003 (RefundBridge 1 5) (evm_run env_ex ?txs w')
       = Inl (Revert ''Already refunded'')"
    by blast+
  from a(3) rel have a3: "confirmBridge 21 1 (evm_run env_ex ?txs w') = Inl (Revert ''Already refunded'')"
    by simp
  have excl0: "\<forall>k. \<not> (bt_executed (transfers (bridgeC world_D) k)
                       \<and> bt_refunded (transfers (bridgeC world_D) k))"
    by (simp add: evm_defs)
  from c7 [of 0] excl0
  have excl: "\<not> (bt_executed (transfers (bridgeC (evm_run env_ex ?txs2 world_D)) 1)
        \<and> bt_refunded (transfers (bridgeC (evm_run env_ex ?txs2 world_D)) 1))"
    by blast
  have exd: "bt_executed (transfers (bridgeC (evm_run env_ex ?txs2 world_D)) 1)"
    by (simp add: evm_defs)
  with excl have nrf: "\<not> bt_refunded (transfers (bridgeC (evm_run env_ex ?txs2 world_D)) 1)"
    by blast
  show ?thesis
    using v(1,2) h(2,3) before w'(1) e a(1,2,4) a3 exd nrf by blast
qed

section \<open>Claim C10: one dispute per escrow\<close>




section \<open>Claim C1: terminal milestone status\<close>

text \<open>
  Claim C1 fails on both chains, through \<open>initiateDispute\<close>. \<open>submitMilestone\<close>,
  \<open>approveMilestone\<close> and \<open>releaseMilestone\<close> each test the status of the milestone;
  \<open>initiateDispute\<close> tests the caller, the status of the escrow, the index and the absence
  of a dispute, and then sets the milestone to Disputed whatever its status was. The
  trace below runs on the escrow [3000, 4000, 3000] funded with 10000. Milestone 0 is
  submitted, approved and released: the freelancer 6 receives 2970, the treasury 2
  receives 30, the balance is 7000. The freelancer then opens a dispute on milestone 0,
  which moves it from Released to Disputed, and three votes for the freelancer resolve
  it: milestone 0 is Released again, and its amount has been paid a second time (5940 and
  60 in all), out of the 7000 that cover the two milestones still Pending. On the EVM
  chain milestone 1 can still be released after that, and then the release of the approved
  milestone 2 fails with \<open>Insufficient balance\<close>.
\<close>

theorem C1_released_milestone_paid_twice:
  "map m_status (escrowMilestones (escrowC (evm_run env_ex
       (txs_B @ [(5, 1004, ReleaseMilestone 1 0)]) evm_genesis)) 1) = [Released, Pending, Pending]
   \<and> eth (evm_run env_ex (txs_B @ [(5, 1004, ReleaseMilestone 1 0)]) evm_genesis) 6 = 2970
   \<and> eth (evm_run env_ex (txs_B @ [(5, 1004, ReleaseMilestone 1 0)]) evm_genesis) 2 = 30
   \<and> e_balance (escrows (escrowC (evm_run env_ex
       (txs_B @ [(5, 1004, ReleaseMilestone 1 0)]) evm_genesis)) 1) = 7000
   \<and> map m_status (escrowMilestones (escrowC (evm_run env_ex
       (txs_B @ [(5, 1004, ReleaseMilestone 1 0), (6, 1005, InitiateDispute 1 0 ''again'')])
       evm_genesis)) 1) = [Disputed, Pending, Pending]
   \<and> map m_status (escrowMilestones (escrowC (evm_run env_ex txs_twice evm_genesis)) 1)
       = [Released, Pending, Pending]
   \<and> map m_amount (escrowMilestones (escrowC (evm_run env_ex txs_twice evm_genesis)) 1)
       = [3000, 4000, 3000]
   \<and> eth (evm_run env_ex txs_twice evm_genesis) 6 = 5940
   \<and> eth (evm_run env_ex txs_twice evm_genesis) 2 = 60
   \<and> eth (evm_run env_ex txs_twice evm_genesis) 100 = 4000
   \<and> e_balance (escrows (escrowC (evm_run env_ex txs_twice evm_genesis)) 1) = 4000
   \<and> map m_status (escrowMilestones (escrowC (evm_run env_ex
       (txs_twice @ [(6, 1009, SubmitMilestone 1 1 ''done''), (5, 1010, ApproveMilestone 1 1),
                     (5, 1011, ReleaseMilestone 1 1), (6, 1012, SubmitMilestone 1 2 ''done''),
                     (5, 1013, ApproveMilestone 1 2)]) evm_genesis)) 1)
       = [Released, Released, Approved]
   \<and> releaseMilestone env_ex 5 1014 1 2 (evm_run env_ex
       (txs_twice @ [(6, 1009, SubmitMilestone 1 1 ''done''), (5, 1010, ApproveMilestone 1 1),
                     (5, 1011, ReleaseMilestone 1 1), (6, 1012, SubmitMilestone 1 2 ''done''),
                     (5, 1013, ApproveMilestone 1 2)]) evm_genesis)
       = Inl (Revert ''Insufficient balance'')
   \<and> map_option (map sm_status \<circ> se_milestones) (escrow_objects (sui_run
       (sui_txs_B @ [(5, 1004, Release_milestone 10 0)]) sui_genesis) 10)
       = Some [MILESTONE_RELEASED, MILESTONE_PENDING, MILESTONE_PENDING]
   \<and> coins (sui_run (sui_txs_B @ [(5, 1004, Release_milestone 10 0)]) sui_genesis) 6 = 2970
   \<and> map_option (map sm_status \<circ> se_milestones) (escrow_objects (sui_run
       (sui_txs_B @ [(5, 1004, Release_milestone 10 0), (6, 1005, Initiate_dispute 10 0 ''again'')])
       sui_genesis) 10)
       = Some [MILESTONE_DISPUTED, MILESTONE_PENDING, MILESTONE_PENDING]
   \<and> map_option (map sm_status \<circ> se_milestones) (escrow_objects (sui_run sui_txs_twice sui_genesis) 10)
       = Some [MILESTONE_RELEASED, MILESTONE_PENDING, MILESTONE_PENDING]
   \<and> coins (sui_run sui_txs_twice sui_genesis) 6 = 5940
   \<and> coins (sui_run sui_txs_twice sui_genesis) 2 = 60
   \<and> map_option se_balance (escrow_objects (sui_run sui_txs_twice sui_genesis) 10) = Some 4000"
  by (simp add: evm_defs sui_defs)

section \<open>Claim C5: resolution of a dispute\<close>




end
